theory Spec2Isabelle
  imports Complex_Main
begin

section \<open>Python values used by the decision pipeline\<close>

text \<open>
  The pipeline computes on Python floats and unbounded ints. Floats are modelled as
  \<^typ>\<open>real\<close> (exact arithmetic, no rounding, no NaN and no infinities except where
  a function returns \<open>float("inf")\<close> explicitly), ints as \<^typ>\<open>int\<close>.
  A private function keeps its name without the leading underscore
  (\<open>_clamp\<close> is \<open>clamp\<close>); \<open>_lockout_candles\<close>, whose name is also a
  configuration key, is \<open>lockout_candles_for\<close>.
\<close>

datatype py_error = IndexError | ZeroDivisionError | StatisticsError

text \<open>\<open>int(x)\<close> on a float truncates towards zero.\<close>

definition py_int :: "real \<Rightarrow> int" where
  "py_int x = (if 0 \<le> x then \<lfloor>x\<rfloor> else \<lceil>x\<rceil>)"

text \<open>\<open>round(x)\<close> on a float rounds to the nearest integer, ties to the even one.\<close>

definition py_round :: "real \<Rightarrow> int" where
  "py_round x =
     (let f = \<lfloor>x\<rfloor>; d = x - of_int f
      in if d < 1 / 2 then f
         else if 1 / 2 < d then f + 1
         else if even f then f else f + 1)"


text \<open>
  Feature maps are \<open>Dict[str, Any]\<close>; the values the pipeline stores and reads are
  bools, ints and floats. \<open>py_truthy\<close> is \<open>bool(d.get(k))\<close> (a missing key gives
  \<open>None\<close>, which is falsy) and \<open>py_float\<close> is \<open>float(x)\<close>.
\<close>

datatype pyval = PyBool bool | PyInt int | PyFloat real

definition py_truthy :: "pyval option \<Rightarrow> bool" where
  "py_truthy x =
     (case x of None \<Rightarrow> False
      | Some (PyBool b) \<Rightarrow> b
      | Some (PyInt i) \<Rightarrow> i \<noteq> 0
      | Some (PyFloat r) \<Rightarrow> r \<noteq> 0)"

definition py_float :: "pyval \<Rightarrow> real" where
  "py_float x = (case x of PyBool b \<Rightarrow> (if b then 1 else 0) | PyInt i \<Rightarrow> of_int i | PyFloat r \<Rightarrow> r)"

text \<open>
  Slices never raise: a negative bound counts from the end and every bound is cut to the
  list. \<open>py_slice xs a b\<close> is \<open>xs[a:b]\<close>, \<open>py_slice_from xs a\<close> is \<open>xs[a:]\<close>;
  \<open>xs[:-1]\<close> is \<open>butlast xs\<close>. Indexing raises IndexError out of range.
\<close>

definition slice_bound :: "nat \<Rightarrow> int \<Rightarrow> nat" where
  "slice_bound n i = (if i < 0 then nat (int n + i) else min n (nat i))"

definition py_slice :: "'a list \<Rightarrow> int \<Rightarrow> int \<Rightarrow> 'a list" where
  "py_slice xs a b =
     (let s = slice_bound (length xs) a; e = slice_bound (length xs) b
      in take (e - s) (drop s xs))"

definition py_slice_from :: "'a list \<Rightarrow> int \<Rightarrow> 'a list" where
  "py_slice_from xs a = drop (slice_bound (length xs) a) xs"

definition py_index :: "'a list \<Rightarrow> int \<Rightarrow> py_error + 'a" where
  "py_index xs i =
     (let j = (if i < 0 then int (length xs) + i else i)
      in if 0 \<le> j \<and> j < int (length xs) then Inr (xs ! nat j) else Inl IndexError)"

text \<open>
  \<open>max(xs)\<close>, \<open>min(xs)\<close>, \<open>statistics.mean(xs)\<close> and \<open>statistics.median(xs)\<close> raise on
  an empty list; every call in the source is guarded by \<open>if xs else default\<close>, and the
  guards are kept in the model, so the functions below are only applied to non-empty
  lists.
\<close>

definition py_max :: "real list \<Rightarrow> real" where
  "py_max xs = foldl max (hd xs) (tl xs)"

definition py_min :: "real list \<Rightarrow> real" where
  "py_min xs = foldl min (hd xs) (tl xs)"

definition mean :: "real list \<Rightarrow> real" where
  "mean xs = sum_list xs / real (length xs)"

definition median :: "real list \<Rightarrow> real" where
  "median xs =
     (let s = sort xs; n = length s
      in if n mod 2 = 1 then s ! (n div 2)
         else (s ! (n div 2 - 1) + s ! (n div 2)) / 2)"

section \<open>Data model (app/data/mock_schemas.py, app/policies/base.py)\<close>

text \<open>Candle fields \<open>t, o, h, l, c, v\<close> carry the prefix \<open>cd_\<close>.\<close>

record Candle =
  cd_t :: int
  cd_o :: real
  cd_h :: real
  cd_l :: real
  cd_c :: real
  cd_v :: real

record PairStats =
  pair_id :: string
  token_mint :: string
  price_usd :: real
  liquidity_usd :: real
  volume_5m :: real
  txns_5m :: int

record Zone =
  zone_low :: real
  zone_high :: real
  zone_strength :: int

record Snapshot =
  pair :: PairStats
  candles :: "Candle list"
  support_zones :: "Zone list"
  resistance_zones :: "Zone list"
  features :: "string \<rightharpoonup> pyval"
  regime_score :: int
  now_ts :: int
  candle_index :: "int option"
  last_close :: real
  last_low :: real
  last_high :: real
  resistance_levels :: "Zone list"
  support_level :: "Zone option"

definition ACTION_HOLD :: string where "ACTION_HOLD = ''HOLD''"
definition ACTION_PROBE_BUY :: string where "ACTION_PROBE_BUY = ''PROBE_BUY''"
definition ACTION_ADD_BUY :: string where "ACTION_ADD_BUY = ''ADD_BUY''"
definition ACTION_SCALE_OUT_20 :: string where "ACTION_SCALE_OUT_20 = ''SCALE_OUT_20''"
definition ACTION_EXIT_FULL :: string where "ACTION_EXIT_FULL = ''EXIT_FULL''"

record ActionProposal =
  action :: string
  reason_codes :: "string list"
  guards :: "(string \<times> int) list"
  expires_at :: "int option"

section \<open>Regime score (app/signals/regime.py)\<close>

definition clamp :: "real \<Rightarrow> real \<Rightarrow> real \<Rightarrow> real" where
  "clamp v low high = max low (min high v)"

definition compute_regime_score :: "real \<Rightarrow> real \<Rightarrow> real \<Rightarrow> int" where
  "compute_regime_score return_pct volume_accel range_ratio =
     (let score = 50;
          score = score + clamp (return_pct * 2000) (- 30) 30;
          score = score + clamp (volume_accel * 20) (- 20) 20;
          score = score + clamp ((range_ratio - 1) * 20) (- 20) 20;
          score = clamp score 0 100
      in py_round score)"

section \<open>Feature extractor (app/signals/features.py)\<close>

definition insufficient_features :: "(string \<times> pyval) list" where
  "insufficient_features =
     [(''highest_close'', PyFloat 0),
      (''lowest_close'', PyFloat 0),
      (''avg_volume'', PyFloat 0),
      (''breakout'', PyBool False),
      (''breakout_strict'', PyBool False),
      (''price_range_ratio'', PyFloat 1),
      (''range_compressed'', PyBool False),
      (''expansion_pct'', PyFloat 0),
      (''price_expanded'', PyBool False),
      (''return_pct'', PyFloat 0),
      (''volume_accel'', PyFloat 0),
      (''range_ratio'', PyFloat 1),
      (''regime_score'', PyInt 0)]"

definition compute_features ::
  "Candle list \<Rightarrow> int \<Rightarrow> real \<Rightarrow> real \<Rightarrow> int option \<Rightarrow> real \<Rightarrow> string
     \<Rightarrow> py_error + (string \<rightharpoonup> pyval)" where
  "compute_features cands lookback vol_multiplier compression_max_range_ratio
       compression_lookback expansion_min_pct expansion_reference =
     (if length cands < 2 then Inr (map_of insufficient_features)
      else
        let closes = map cd_c cands;
            volumes = map cd_v cands;
            ranges = map (\<lambda>k. cd_h k - cd_l k) cands;
            current_close = last closes;
            current_vol = last volumes;
            current_range = last ranges;
            lookback_window =
              (if 1 < length closes then py_slice closes (- (lookback + 1)) (- 1) else closes);
            vol_window =
              (if 1 < length volumes then py_slice volumes (- (lookback + 1)) (- 1) else volumes);
            range_window =
              (if 1 < length ranges then py_slice ranges (- (lookback + 1)) (- 1) else ranges);
            lookback_window = (if lookback_window = [] then butlast closes else lookback_window);
            vol_window = (if vol_window = [] then butlast volumes else vol_window);
            range_window = (if range_window = [] then butlast ranges else range_window);
            highest_close = (if lookback_window \<noteq> [] then py_max lookback_window else current_close);
            lowest_close = (if lookback_window \<noteq> [] then py_min lookback_window else current_close);
            avg_vol = (if vol_window \<noteq> [] then mean vol_window else current_vol);
            avg_range = (if range_window \<noteq> [] then mean range_window else current_range);
            ref_lookback =
              (case compression_lookback of
                 None \<Rightarrow> lookback
               | Some cl \<Rightarrow> if cl \<noteq> 0 \<and> 0 < cl then cl else lookback);
            ref_window =
              (if 1 < length closes then py_slice closes (- (ref_lookback + 1)) (- 1) else closes);
            ref_window = (if ref_window = [] then butlast closes else ref_window);
            ref_high = (if ref_window \<noteq> [] then py_max ref_window else current_close);
            ref_low = (if ref_window \<noteq> [] then py_min ref_window else current_close);
            price_range_ratio = (if 0 < ref_low then ref_high / ref_low else 1);
            range_compressed = (price_range_ratio \<le> compression_max_range_ratio);
            expansion_reference_value = ref_high;
            expansion_reference_value =
              (if expansion_reference \<noteq> ''highest_close'' then ref_high
               else expansion_reference_value);
            expansion_pct =
              (if 0 < expansion_reference_value
               then current_close / expansion_reference_value - 1 else 0);
            price_expanded = (expansion_min_pct \<le> expansion_pct);
            breakout_strict = (range_compressed \<and> price_expanded)
        in case (if lookback < int (length closes)
                 then (case py_index closes (- (lookback + 1)) of
                         Inl e \<Rightarrow> Inl e
                       | Inr prior_close \<Rightarrow>
                           Inr (if 0 < prior_close then current_close / prior_close - 1 else 0))
                 else Inr 0) of
             Inl e \<Rightarrow> Inl e
           | Inr return_pct \<Rightarrow>
               let volume_accel = (if 0 < avg_vol then current_vol / avg_vol - 1 else 0);
                   range_ratio = (if 0 < avg_range then current_range / avg_range else 1);
                   regime = compute_regime_score return_pct volume_accel range_ratio
               in Inr (map_of
                    [(''highest_close'', PyFloat highest_close),
                     (''lowest_close'', PyFloat lowest_close),
                     (''avg_volume'', PyFloat avg_vol),
                     (''breakout'', PyBool breakout_strict),
                     (''breakout_strict'', PyBool breakout_strict),
                     (''price_range_ratio'', PyFloat price_range_ratio),
                     (''range_compressed'', PyBool range_compressed),
                     (''expansion_pct'', PyFloat expansion_pct),
                     (''price_expanded'', PyBool price_expanded),
                     (''return_pct'', PyFloat return_pct),
                     (''volume_accel'', PyFloat volume_accel),
                     (''range_ratio'', PyFloat range_ratio),
                     (''regime_score'', PyInt regime)]))"

text \<open>
  \<open>momentum_score\<close>. The window holds \<open>lookback + 1 \<ge> 2\<close> candles when the first guard
  passes, so \<open>window[0]\<close>, \<open>window[-1]\<close> and \<open>vols[-1]\<close> exist. \<open>log1p(x)\<close> is
  \<open>ln (1 + x)\<close>.
\<close>

definition rel_ranges :: "Candle list \<Rightarrow> real list" where
  "rel_ranges cs = map (\<lambda>k. (cd_h k - cd_l k) / cd_c k) (filter (\<lambda>k. \<not> cd_c k \<le> 0) cs)"

definition momentum_score :: "Candle list \<Rightarrow> int \<Rightarrow> real" where
  "momentum_score cands lookback =
     (if int (length cands) < lookback + 1 \<or> lookback \<le> 0 then 0
      else
        let window = py_slice_from cands (- (lookback + 1));
            close_now = cd_c (last window);
            close_then = cd_c (hd window)
        in if close_then \<le> 0 then 0
           else
             let ret = close_now / close_then - 1;
                 vols = map cd_v (butlast window);
                 median_vol = (if vols \<noteq> [] then median vols else 0);
                 vol_mult = (if 0 < median_vol then last vols / median_vol else 1);
                 ranges = rel_ranges (butlast window);
                 median_range = (if ranges \<noteq> [] then median ranges else 0);
                 range_now = (cd_h (last window) - cd_l (last window)) / max close_now (1 / 10 ^ 9);
                 range_mult = (if 0 < median_range then range_now / median_range else 1);
                 score = 100 * ret;
                 score = (if 0 < median_vol then score + 10 * ln (1 + max 0 (vol_mult - 1)) else score);
                 score = (if 0 < median_range then score + 5 * ln (1 + max 0 (range_mult - 1)) else score)
             in score)"

section \<open>Configuration\<close>

text \<open>
  The configuration is a dict of sections, each a dict read with
  \<open>section.get(key, default)\<close>. A section is a record whose fields are the keys the
  pipeline reads, \<open>None\<close> for a missing key; a missing section is the section with no
  keys, as \<open>config.get(name, {})\<close> makes it. Keys converted with \<open>int(...)\<close> hold
  ints, those converted with \<open>float(...)\<close> hold floats.
\<close>

definition cfg_get :: "'a option \<Rightarrow> 'a \<Rightarrow> 'a" where
  "cfg_get x d = (case x of None \<Rightarrow> d | Some y \<Rightarrow> y)"

record positioning_cfg =
  capital_usd :: "real option"
  probe_pct :: "real option"
  add_pct :: "real option"
  tp1_scale_out_pct :: "real option"
  tp2_scale_out_pct :: "real option"

record engine_cfg =
  cooldown_candles :: "int option"
  poll_interval_sec :: "real option"

record progress_cfg =
  min_move_pct :: "real option"
  max_wait_candles :: "int option"
  breakeven_after_progress :: "bool option"
  trail_after_progress :: "bool option"
  trail_lookback_lows :: "int option"

record rules_cfg =
  progress :: progress_cfg
  confirm_min_close_above_pct :: "real option"
  confirm_max_retrace_pct :: "real option"
  add_trigger_up_pct :: "real option"
  time_stop_candles :: "int option"
  top_n_per_tick :: "int option"
  min_candidates_before_rank :: "int option"
  momentum_lookback :: "int option"

record risk_cfg =
  min_liquidity_usd :: "real option"
  max_slippage_bps :: "real option"

record reentry_cfg =
  lockout_candles :: "int option"
  min_breakout_pct :: "real option"
  candle_seconds :: "int option"
  vol_mult_unlock :: "real option"

record stops_cfg =
  stop_buffer_pct :: "real option"

record breakout_cfg =
  chain_override_score_bonus :: "real option"
  weak_breakout_score_penalty :: "real option"

record config =
  positioning :: positioning_cfg
  engine :: engine_cfg
  rules :: rules_cfg
  risk :: risk_cfg
  reentry :: reentry_cfg
  stops :: stops_cfg
  breakout :: breakout_cfg

section \<open>Token state machine (app/orchestrator/state_machine.py)\<close>

definition STATE_SCOUT :: string where "STATE_SCOUT = ''SCOUT''"
definition STATE_PROBE :: string where "STATE_PROBE = ''PROBE''"
definition STATE_TRADE :: string where "STATE_TRADE = ''TRADE''"
definition STATE_COOLDOWN :: string where "STATE_COOLDOWN = ''COOLDOWN''"

record TokenState =
  status :: string
  probe_entry_price :: "real option"
  probe_entry_low :: "real option"
  add_entry_price :: "real option"
  position_usd :: real
  time_in_trade :: int
  cooldown_left :: int
  scale_out_stage :: int
  last_exit_ts :: "int option"
  last_exit_price :: "real option"
  last_exit_index :: "int option"
  entry_index :: "int option"
  last_exit_was_stop :: bool
  pending_breakout_index :: "int option"
  pending_breakout_level :: "real option"
  pending_breakout_expires_index :: "int option"
  entry_price :: "real option"
  max_favorable_price :: "real option"
  progress_hit :: bool
  progress_deadline_index :: "int option"

text \<open>The dataclass defaults: \<open>TokenState()\<close>.\<close>

definition initial_state :: TokenState where
  "initial_state =
     \<lparr>status = STATE_SCOUT, probe_entry_price = None, probe_entry_low = None,
      add_entry_price = None, position_usd = 0, time_in_trade = 0, cooldown_left = 0,
      scale_out_stage = 0, last_exit_ts = None, last_exit_price = None,
      last_exit_index = None, entry_index = None, last_exit_was_stop = False,
      pending_breakout_index = None, pending_breakout_level = None,
      pending_breakout_expires_index = None, entry_price = None,
      max_favorable_price = None, progress_hit = False, progress_deadline_index = None\<rparr>"

definition infer_interval_sec :: "Candle list \<Rightarrow> int" where
  "infer_interval_sec cands =
     (let diffs = filter (\<lambda>d. 0 < d) (map (\<lambda>(a, b). cd_t b - cd_t a) (zip cands (tl cands)))
      in if diffs = [] then 60 else py_int (median (map of_int diffs)))"

text \<open>\<open>_lockout_candles\<close> (the leading underscore is dropped, the key keeps its name).\<close>

definition lockout_candles_for :: "config \<Rightarrow> bool \<Rightarrow> int" where
  "lockout_candles_for cfg was_stop =
     (let lockout = cfg_get (lockout_candles (reentry cfg)) 0
      in if was_stop then lockout * 3 else lockout)"

definition lockout_expired ::
  "int \<Rightarrow> int option \<Rightarrow> int option \<Rightarrow> int option \<Rightarrow> config \<Rightarrow> int \<Rightarrow> bool \<Rightarrow> bool" where
  "lockout_expired now exit_ts now_idx exit_idx cfg interval_sec was_stop =
     (let lockout = lockout_candles_for cfg was_stop
      in if lockout \<le> 0 then True
         else case (now_idx, exit_idx) of
                (Some ni, Some li) \<Rightarrow> lockout \<le> ni - li
              | _ \<Rightarrow> (case exit_ts of
                         None \<Rightarrow> True
                       | Some ts \<Rightarrow> ts + lockout * interval_sec \<le> now))"

definition update_reentry_lockout ::
  "TokenState \<Rightarrow> int \<Rightarrow> config \<Rightarrow> int \<Rightarrow> int option \<Rightarrow> TokenState" where
  "update_reentry_lockout state now cfg interval_sec now_idx =
     (if \<not> last_exit_was_stop state then state
      else if lockout_expired now (last_exit_ts state) now_idx (last_exit_index state)
                cfg interval_sec True
           then state\<lparr>last_exit_was_stop := False\<rparr>
           else state)"

definition clear_pending_breakout :: "TokenState \<Rightarrow> TokenState" where
  "clear_pending_breakout state =
     state\<lparr>pending_breakout_index := None, pending_breakout_level := None,
           pending_breakout_expires_index := None\<rparr>"

definition can_reenter ::
  "int \<Rightarrow> int option \<Rightarrow> int option \<Rightarrow> real option \<Rightarrow> real \<Rightarrow> config \<Rightarrow> bool \<Rightarrow> bool
     \<Rightarrow> int option \<Rightarrow> int option \<Rightarrow> bool" where
  "can_reenter now exit_ts exit_idx exit_price current_close cfg vol_ok was_stop
       interval_sec now_idx =
     (case exit_price of
        None \<Rightarrow> True
      | Some price \<Rightarrow>
          if exit_ts = None \<and> exit_idx = None then True
          else
            let lockout = lockout_candles_for cfg was_stop;
                min_breakout = cfg_get (min_breakout_pct (reentry cfg)) 0;
                secs = (case interval_sec of
                          Some i \<Rightarrow> if i \<noteq> 0 then i else cfg_get (candle_seconds (reentry cfg)) 60
                        | None \<Rightarrow> cfg_get (candle_seconds (reentry cfg)) 60)
            in if lockout \<le> 0 then True
               else case (now_idx, exit_idx) of
                      (Some ni, Some li) \<Rightarrow>
                        if ni - li < lockout
                        then (if price * (1 + min_breakout) \<le> current_close then True
                              else if vol_ok then True
                              else False)
                        else True
                    | _ \<Rightarrow>
                        (case exit_ts of
                           None \<Rightarrow> True
                         | Some ts \<Rightarrow>
                             let lockout_until = ts + lockout * secs
                             in if now < lockout_until
                                then (if price * (1 + min_breakout) \<le> current_close then True
                                      else if vol_ok then True
                                      else False)
                                else True))"

definition advance_time :: "TokenState \<Rightarrow> TokenState" where
  "advance_time state =
     (let state = (if status state = STATE_PROBE \<or> status state = STATE_TRADE
                   then state\<lparr>time_in_trade := time_in_trade state + 1\<rparr> else state)
      in if status state = STATE_COOLDOWN \<and> 0 < cooldown_left state
         then (let state = state\<lparr>cooldown_left := cooldown_left state - 1\<rparr>
               in if cooldown_left state \<le> 0
                  then state\<lparr>status := STATE_SCOUT, cooldown_left := 0\<rparr>
                  else state)
         else state)"

text \<open>
  \<open>apply_action\<close>; \<open>cfg\<close> is the configuration in force (\<open>config or get_config()\<close>).
  \<open>exit_reason_codes\<close> is optional: \<open>None\<close> and the empty list are both falsy.
\<close>

definition apply_action ::
  "TokenState \<Rightarrow> string \<Rightarrow> Snapshot \<Rightarrow> config \<Rightarrow> string list option \<Rightarrow> TokenState" where
  "apply_action state act snapshot cfg exit_reason_codes =
     (if act = ''PROBE_BUY'' then
        (let state = clear_pending_breakout state;
             state = state\<lparr>status := STATE_PROBE,
                      probe_entry_price := Some (last_close snapshot),
                      probe_entry_low := Some (last_low snapshot),
                      position_usd := cfg_get (capital_usd (positioning cfg)) 0
                                        * cfg_get (probe_pct (positioning cfg)) 0,
                      time_in_trade := 0,
                      scale_out_stage := 0,
                      entry_index := candle_index snapshot,
                      entry_price := Some (last_close snapshot),
                      max_favorable_price := Some (last_close snapshot),
                      progress_hit := False\<rparr>;
             max_wait = cfg_get (max_wait_candles (progress (rules cfg))) 0
         in case entry_index state of
              Some ei \<Rightarrow> if 0 < max_wait
                         then state\<lparr>progress_deadline_index := Some (ei + max_wait)\<rparr>
                         else state\<lparr>progress_deadline_index := None\<rparr>
            | None \<Rightarrow> state\<lparr>progress_deadline_index := None\<rparr>)
      else if act = ''ADD_BUY'' then
        (let state = clear_pending_breakout state;
             state = state\<lparr>status := STATE_TRADE,
                      add_entry_price := Some (last_close snapshot),
                      position_usd := position_usd state
                                        + cfg_get (capital_usd (positioning cfg)) 0
                                          * cfg_get (add_pct (positioning cfg)) 0\<rparr>;
             state = (if entry_index state = None
                      then state\<lparr>entry_index := candle_index snapshot\<rparr> else state)
         in if entry_price state = None
            then state\<lparr>entry_price := Some (last_close snapshot)\<rparr> else state)
      else if act = ''SCALE_OUT_20'' then
        (let stage = scale_out_stage state;
             scale_pct = (if stage = 0 then cfg_get (tp1_scale_out_pct (positioning cfg)) 0
                          else cfg_get (tp2_scale_out_pct (positioning cfg)) 0)
         in state\<lparr>position_usd := max 0 (position_usd state * (1 - scale_pct)),
                  scale_out_stage := scale_out_stage state + 1\<rparr>)
      else if act = ''EXIT_FULL'' then
        (let state = clear_pending_breakout state
         in state\<lparr>status := STATE_COOLDOWN,
                  cooldown_left := cfg_get (cooldown_candles (engine cfg)) 0,
                  probe_entry_price := None,
                  probe_entry_low := None,
                  add_entry_price := None,
                  position_usd := 0,
                  time_in_trade := 0,
                  scale_out_stage := 0,
                  entry_index := None,
                  entry_price := None,
                  max_favorable_price := None,
                  progress_hit := False,
                  progress_deadline_index := None,
                  last_exit_ts := Some (now_ts snapshot),
                  last_exit_price := Some (last_close snapshot),
                  last_exit_index := candle_index snapshot,
                  last_exit_was_stop :=
                    (case exit_reason_codes of
                       None \<Rightarrow> False
                     | Some codes \<Rightarrow> codes \<noteq> [] \<and> ''STRUCT_STOP'' \<in> set codes)\<rparr>)
      else state)"

text \<open>
  A run of the orchestrator on one instrument: any sequence of \<open>advance_time\<close> and
  \<open>apply_action\<close> calls, the latter with any action string, snapshot, configuration
  and exit reason codes.
\<close>

datatype call =
  AdvanceTime
  | ApplyAction string Snapshot config "string list option"

fun run_call :: "TokenState \<Rightarrow> call \<Rightarrow> TokenState" where
  "run_call state AdvanceTime = advance_time state"
| "run_call state (ApplyAction act snapshot cfg codes) = apply_action state act snapshot cfg codes"

definition run_calls :: "TokenState \<Rightarrow> call list \<Rightarrow> TokenState" where
  "run_calls state calls = foldl run_call state calls"

definition position_invariant :: "TokenState \<Rightarrow> bool" where
  "position_invariant state =
     (status state = STATE_SCOUT \<or> status state = STATE_COOLDOWN \<longrightarrow> position_usd state = 0)"

section \<open>Risk validator (app/orchestrator/risk.py, app/orchestrator/validator.py)\<close>

definition estimate_slippage_bps :: "real \<Rightarrow> real \<Rightarrow> int" where
  "estimate_slippage_bps amount_usd liquidity =
     (if liquidity \<le> 0 then 10000
      else let impact = amount_usd / liquidity;
               bps = py_int (impact * 10000)
           in max 10 (min 5000 bps))"

definition action_notional_usd :: "string \<Rightarrow> TokenState \<Rightarrow> config \<Rightarrow> real" where
  "action_notional_usd act state cfg =
     (let capital = cfg_get (capital_usd (positioning cfg)) 0
      in if act = ACTION_PROBE_BUY then capital * cfg_get (probe_pct (positioning cfg)) 0
         else if act = ACTION_ADD_BUY then capital * cfg_get (add_pct (positioning cfg)) 0
         else if act = ACTION_SCALE_OUT_20 then
           (let scale_pct = (if scale_out_stage state = 0
                             then cfg_get (tp1_scale_out_pct (positioning cfg)) 0
                             else cfg_get (tp2_scale_out_pct (positioning cfg)) 0)
            in position_usd state * scale_pct)
         else if act = ACTION_EXIT_FULL then position_usd state
         else 0)"

definition validate_action ::
  "ActionProposal \<Rightarrow> Snapshot \<Rightarrow> TokenState \<Rightarrow> config \<Rightarrow> ActionProposal" where
  "validate_action proposal snapshot state cfg =
     (if action proposal = ACTION_HOLD then proposal
      else
        let rejected = [];
            rejected = (if status state = ''COOLDOWN'' then rejected @ [''COOLDOWN''] else rejected);
            liquidity = liquidity_usd (pair snapshot);
            min_liquidity = cfg_get (min_liquidity_usd (risk cfg)) 0;
            rejected = (if liquidity < min_liquidity then rejected @ [''LOW_LIQUIDITY'']
                        else rejected);
            rejected = (if (action proposal = ACTION_SCALE_OUT_20 \<or> action proposal = ACTION_EXIT_FULL)
                           \<and> position_usd state \<le> 0
                        then rejected @ [''NO_POSITION''] else rejected);
            notional = action_notional_usd (action proposal) state cfg;
            slippage_bps = estimate_slippage_bps notional liquidity;
            max_slippage = cfg_get (max_slippage_bps (risk cfg)) 0;
            rejected = (if max_slippage < of_int slippage_bps
                        then rejected @ [''SLIPPAGE_TOO_HIGH''] else rejected)
        in if rejected \<noteq> []
           then \<lparr>action = ACTION_HOLD,
                 reason_codes = map (\<lambda>code. ''REJECT_'' @ code) rejected,
                 guards = guards proposal,
                 expires_at = expires_at proposal\<rparr>
           else proposal)"

text \<open>
  The rejection list in the words of the specification: the codes of the conditions that
  hold, in the order COOLDOWN, LOW_LIQUIDITY, NO_POSITION, SLIPPAGE_TOO_HIGH.
\<close>

definition rejections_spec :: "ActionProposal \<Rightarrow> Snapshot \<Rightarrow> TokenState \<Rightarrow> config \<Rightarrow> string list" where
  "rejections_spec proposal snapshot state cfg =
     (if status state = ''COOLDOWN'' then [''REJECT_COOLDOWN''] else [])
     @ (if liquidity_usd (pair snapshot) < cfg_get (min_liquidity_usd (risk cfg)) 0
        then [''REJECT_LOW_LIQUIDITY''] else [])
     @ (if action proposal \<in> {''SCALE_OUT_20'', ''EXIT_FULL''} \<and> position_usd state \<le> 0
        then [''REJECT_NO_POSITION''] else [])
     @ (if cfg_get (max_slippage_bps (risk cfg)) 0
            < of_int (estimate_slippage_bps (action_notional_usd (action proposal) state cfg)
                        (liquidity_usd (pair snapshot)))
        then [''REJECT_SLIPPAGE_TOO_HIGH''] else [])"

section \<open>Backtest metrics (app/backtest/metrics.py)\<close>

text \<open>
  A trade is a dict read with \<open>t.get("pnl_usd", 0.0)\<close> and \<open>t.get("return_pct", 0.0)\<close>.
  \<open>profit_factor\<close> may return \<open>float("inf")\<close>, so metric values are reals extended by
  positive infinity.
\<close>

record trade =
  pnl_usd :: "real option"
  return_pct :: "real option"

datatype pyfloat = Finite real | PosInf

datatype metric_value = MetricFloat pyfloat | MetricInt int

fun equity_loop :: "real \<Rightarrow> real list \<Rightarrow> trade list \<Rightarrow> real list" where
  "equity_loop equity curve [] = curve"
| "equity_loop equity curve (tr # trs) =
     (let equity = equity + cfg_get (pnl_usd tr) 0
      in equity_loop equity (curve @ [equity]) trs)"

definition equity_curve :: "real \<Rightarrow> trade list \<Rightarrow> real list" where
  "equity_curve starting_capital trades = equity_loop starting_capital [starting_capital] trades"

fun drawdown_loop :: "real \<Rightarrow> real \<Rightarrow> real list \<Rightarrow> real" where
  "drawdown_loop peak max_dd [] = max_dd"
| "drawdown_loop peak max_dd (x # xs) =
     (let peak = (if peak < x then x else peak);
          drawdown = (if 0 < peak then (peak - x) / peak else 0);
          max_dd = (if max_dd < drawdown then drawdown else max_dd)
      in drawdown_loop peak max_dd xs)"

definition max_drawdown :: "real list \<Rightarrow> real" where
  "max_drawdown curve = drawdown_loop (case curve of [] \<Rightarrow> 0 | x # _ \<Rightarrow> x) 0 curve"

definition profit_factor :: "trade list \<Rightarrow> pyfloat" where
  "profit_factor trades =
     (let wins = sum_list (map (\<lambda>tr. cfg_get (pnl_usd tr) 0)
                            (filter (\<lambda>tr. 0 < cfg_get (pnl_usd tr) 0) trades));
          losses = sum_list (map (\<lambda>tr. - cfg_get (pnl_usd tr) 0)
                              (filter (\<lambda>tr. cfg_get (pnl_usd tr) 0 < 0) trades))
      in if losses = 0 then (if 0 < wins then PosInf else Finite 0)
         else Finite (wins / losses))"

definition win_rate :: "trade list \<Rightarrow> real" where
  "win_rate trades =
     (if trades = [] then 0
      else real (length (filter (\<lambda>tr. 0 < cfg_get (pnl_usd tr) 0) trades)) / real (length trades))"

definition avg_trade_return :: "trade list \<Rightarrow> real" where
  "avg_trade_return trades =
     (if trades = [] then 0
      else let returns = map (\<lambda>tr. cfg_get (return_pct tr) 0) trades
           in sum_list returns / real (length returns))"

definition trade_count :: "trade list \<Rightarrow> int" where
  "trade_count trades = int (length trades)"

text \<open>
  \<open>compute_metrics\<close> divides by \<open>starting_capital\<close> without a guard: a zero capital
  raises ZeroDivisionError. The curve always holds the starting capital, so
  \<open>if curve\<close> is true.
\<close>

definition compute_metrics :: "real \<Rightarrow> trade list \<Rightarrow> py_error + (string \<rightharpoonup> metric_value)" where
  "compute_metrics starting_capital trades =
     (let curve = equity_curve starting_capital trades
      in case (if curve \<noteq> []
               then (if starting_capital = 0 then Inl ZeroDivisionError
                     else Inr (last curve / starting_capital - 1))
               else Inr 0) of
           Inl e \<Rightarrow> Inl e
         | Inr total_return \<Rightarrow>
             Inr (map_of
               [(''total_return_pct'', MetricFloat (Finite total_return)),
                (''max_drawdown_pct'', MetricFloat (Finite (max_drawdown curve))),
                (''profit_factor'', MetricFloat (profit_factor trades)),
                (''win_rate'', MetricFloat (Finite (win_rate trades))),
                (''avg_trade_return_pct'', MetricFloat (Finite (avg_trade_return trades))),
                (''trade_count'', MetricInt (trade_count trades))]))"

section \<open>Policy (app/policies/rules_v0.py)\<close>

text \<open>
  \<open>propose_action\<close> writes to the state it is given (the pending-breakout fields, the
  stop flag, the progress fields), so the model returns the proposal together with the
  state after the call.
\<close>

definition proposal :: "string \<Rightarrow> string list \<Rightarrow> (string \<times> int) list \<Rightarrow> int \<Rightarrow> ActionProposal" where
  "proposal act reasons grds expires =
     \<lparr>action = act, reason_codes = reasons, guards = grds, expires_at = Some expires\<rparr>"

text \<open>\<open>a or b\<close> on optional floats: \<open>None\<close> and \<open>0.0\<close> are falsy.\<close>

definition py_or :: "real option \<Rightarrow> real option \<Rightarrow> real option" where
  "py_or a b = (case a of None \<Rightarrow> b | Some x \<Rightarrow> if x \<noteq> 0 then Some x else b)"

definition propose_scout ::
  "Snapshot \<Rightarrow> TokenState \<Rightarrow> config \<Rightarrow> (string \<times> int) list \<Rightarrow> int
     \<Rightarrow> ActionProposal \<times> TokenState" where
  "propose_scout snapshot state cfg grds expires =
     (let interval_sec = infer_interval_sec (candles snapshot);
          state = update_reentry_lockout state (now_ts snapshot) cfg interval_sec
                    (candle_index snapshot);
          feats = features snapshot;
          breakout_strict =
            py_truthy (case feats ''breakout_strict'' of
                         Some x \<Rightarrow> Some x
                       | None \<Rightarrow> feats ''breakout'');
          range_compressed = py_truthy (feats ''range_compressed'');
          price_expanded = py_truthy (feats ''price_expanded'');
          chain_override = py_truthy (feats ''chain_override'');
          missing_reasons = [];
          missing_reasons = (if \<not> range_compressed
                             then missing_reasons @ [''NO_RANGE_COMPRESSION'']
                             else missing_reasons);
          missing_reasons = (if \<not> price_expanded
                             then missing_reasons @ [''NO_PRICE_EXPANSION'']
                             else missing_reasons);
          current_index = candle_index snapshot;
          pending =
            (if pending_breakout_index state \<noteq> None then
               (case current_index of
                  None \<Rightarrow> (None, clear_pending_breakout state)
                | Some cur \<Rightarrow>
                    (case pending_breakout_expires_index state of
                       Some expiry \<Rightarrow>
                         if expiry < cur
                         then (Some (proposal ACTION_HOLD [''BREAKOUT_EXPIRED''] grds expires),
                               clear_pending_breakout state)
                         else (None, state)
                     | None \<Rightarrow> (None, state)))
             else (None, state))
      in case pending of
           (Some p, state) \<Rightarrow> (p, state)
         | (None, state) \<Rightarrow>
             if pending_breakout_index state \<noteq> None \<and> current_index \<noteq> None then
               (case pending_breakout_level state of
                  None \<Rightarrow> (proposal ACTION_HOLD [''BREAKOUT_EXPIRED''] grds expires,
                            clear_pending_breakout state)
                | Some level \<Rightarrow>
                    let close = last_close snapshot;
                        low = last_low snapshot;
                        confirm_close_above =
                          cfg_get (confirm_min_close_above_pct (rules cfg)) (1 / 100);
                        confirm_max_retrace =
                          cfg_get (confirm_max_retrace_pct (rules cfg)) (5 / 100);
                        confirm_close = (level * (1 + confirm_close_above) \<le> close);
                        confirm_retrace_ok = (level * (1 - confirm_max_retrace) \<le> low)
                    in if level < close \<and> confirm_close \<and> confirm_retrace_ok
                       then (proposal ACTION_PROBE_BUY [''BREAKOUT_CONFIRM''] grds expires,
                             clear_pending_breakout state)
                       else (proposal ACTION_HOLD [''BREAKOUT_WAIT''] grds expires, state))
             else if breakout_strict then
               (let avg_vol = (case feats ''avg_volume'' of None \<Rightarrow> 0 | Some x \<Rightarrow> py_float x);
                    current_vol = (if candles snapshot \<noteq> [] then cd_v (last (candles snapshot))
                                   else 0);
                    vol_mult = cfg_get (vol_mult_unlock (reentry cfg)) 0;
                    vol_ok = False;
                    vol_ok = (if 0 < vol_mult \<and> 0 < avg_vol
                              then vol_mult * avg_vol < current_vol else vol_ok)
                in if \<not> can_reenter (now_ts snapshot) (last_exit_ts state)
                           (last_exit_index state) (last_exit_price state)
                           (last_close snapshot) cfg vol_ok (last_exit_was_stop state)
                           (Some interval_sec) (candle_index snapshot)
                   then (proposal ACTION_HOLD [''REENTRY_LOCKOUT''] grds expires, state)
                   else case current_index of
                          None \<Rightarrow> (proposal ACTION_PROBE_BUY [''BREAKOUT''] grds expires, state)
                        | Some cur \<Rightarrow>
                            (proposal ACTION_HOLD [''BREAKOUT_PENDING''] grds expires,
                             state\<lparr>pending_breakout_index := Some cur,
                                   pending_breakout_level :=
                                     Some (case feats ''highest_close'' of
                                             None \<Rightarrow> last_close snapshot
                                           | Some x \<Rightarrow> py_float x),
                                   pending_breakout_expires_index := Some (cur + 3)\<rparr>))
             else if chain_override then
               (if \<not> can_reenter (now_ts snapshot) (last_exit_ts state)
                        (last_exit_index state) (last_exit_price state)
                        (last_close snapshot) cfg False (last_exit_was_stop state)
                        (Some interval_sec) (candle_index snapshot)
                then (proposal ACTION_HOLD [''REENTRY_LOCKOUT''] grds expires, state)
                else (proposal ACTION_PROBE_BUY (missing_reasons @ [''PROVISIONAL_CHAIN_OVERRIDE''])
                        grds expires, state))
             else
               (let missing_reasons = (if missing_reasons = [] then [''NO_PRICE_EXPANSION'']
                                       else missing_reasons)
                in (proposal ACTION_HOLD missing_reasons grds expires, state)))"

text \<open>
  The progress block and the structural stop are written twice in the source, once under
  PROBE and once under TRADE, with the same text; they are one definition each here.
  \<open>progress_check\<close> returns the exit proposal when the block returns, and the state
  with the progress fields updated.
\<close>

definition progress_check ::
  "Snapshot \<Rightarrow> TokenState \<Rightarrow> config \<Rightarrow> (string \<times> int) list \<Rightarrow> int
     \<Rightarrow> ActionProposal option \<times> TokenState" where
  "progress_check snapshot state cfg grds expires =
     (let progress_cfg = progress (rules cfg)
      in case py_or (entry_price state) (probe_entry_price state) of
           None \<Rightarrow> (None, state)
         | Some entry \<Rightarrow>
             if entry = 0 then (None, state)
             else
               let state = (if max_favorable_price state = None
                            then state\<lparr>max_favorable_price := Some entry\<rparr> else state);
                   state = state\<lparr>max_favorable_price :=
                             map_option (\<lambda>m. max m (last_close snapshot))
                               (max_favorable_price state)\<rparr>;
                   min_move = cfg_get (min_move_pct progress_cfg) 0;
                   max_wait = cfg_get (max_wait_candles progress_cfg) 0;
                   state = (if \<not> progress_hit state \<and> entry * (1 + min_move) \<le> last_high snapshot
                            then state\<lparr>progress_hit := True\<rparr> else state)
               in if \<not> progress_hit state then
                    (let deadline = progress_deadline_index state;
                         new_deadline =
                           (if deadline = None \<and> 0 < max_wait
                            then map_option (\<lambda>ei. ei + max_wait) (entry_index state)
                            else None);
                         deadline = (if new_deadline \<noteq> None then new_deadline else deadline);
                         state = (if new_deadline \<noteq> None
                                  then state\<lparr>progress_deadline_index := new_deadline\<rparr>
                                  else state)
                     in case (deadline, candle_index snapshot) of
                          (Some dl, Some cur) \<Rightarrow>
                            if dl \<le> cur
                            then (Some (proposal ACTION_EXIT_FULL [''PROGRESS_STOP''] grds expires),
                                  state)
                            else (None, state)
                        | _ \<Rightarrow> (None, state))
                  else
                    (let stop_level = None;
                         stop_level =
                           (if cfg_get (breakeven_after_progress progress_cfg) False
                            then Some entry else stop_level);
                         stop_level =
                           (if cfg_get (trail_after_progress progress_cfg) False then
                              (let lookback_lows = cfg_get (trail_lookback_lows progress_cfg) 1
                               in if 0 < lookback_lows
                                     \<and> lookback_lows + 1 \<le> int (length (candles snapshot))
                                  then (let lows = map cd_l (py_slice (candles snapshot)
                                                      (- (lookback_lows + 1)) (- 1))
                                        in if lows \<noteq> [] then
                                             (let trail_low = py_min lows
                                              in case stop_level of
                                                   Some sl \<Rightarrow> Some (max sl trail_low)
                                                 | None \<Rightarrow> Some trail_low)
                                           else stop_level)
                                  else stop_level)
                            else stop_level)
                     in case stop_level of
                          Some sl \<Rightarrow>
                            if last_close snapshot < sl
                            then (Some (proposal ACTION_EXIT_FULL [''TRAIL_STOP''] grds expires),
                                  state)
                            else (None, state)
                        | None \<Rightarrow> (None, state)))"

definition struct_stop_hit :: "Snapshot \<Rightarrow> TokenState \<Rightarrow> config \<Rightarrow> bool" where
  "struct_stop_hit snapshot state cfg =
     (let stop_buffer = cfg_get (stop_buffer_pct (stops cfg)) 0
      in case probe_entry_low state of
           None \<Rightarrow> False
         | Some pl \<Rightarrow> last_close snapshot < pl * (1 - stop_buffer))"

definition propose_probe ::
  "Snapshot \<Rightarrow> TokenState \<Rightarrow> config \<Rightarrow> (string \<times> int) list \<Rightarrow> int
     \<Rightarrow> ActionProposal \<times> TokenState" where
  "propose_probe snapshot state cfg grds expires =
     (case progress_check snapshot state cfg grds expires of
        (Some p, state) \<Rightarrow> (p, state)
      | (None, state) \<Rightarrow>
          if struct_stop_hit snapshot state cfg
          then (proposal ACTION_EXIT_FULL [''STRUCT_STOP''] grds expires, state)
          else
            let add_trigger = cfg_get (add_trigger_up_pct (rules cfg)) 0
            in case (probe_entry_price state, probe_entry_low state) of
                 (Some pp, Some pl) \<Rightarrow>
                   if pp \<noteq> 0 \<and> pp * (1 + add_trigger) \<le> last_close snapshot
                      \<and> pl < last_close snapshot
                   then (proposal ACTION_ADD_BUY [''ADD_TRIGGER''] grds expires, state)
                   else (proposal ACTION_HOLD [''WAIT_ADD''] grds expires, state)
               | _ \<Rightarrow> (proposal ACTION_HOLD [''WAIT_ADD''] grds expires, state))"

definition time_stop_hit :: "Snapshot \<Rightarrow> TokenState \<Rightarrow> config \<Rightarrow> bool" where
  "time_stop_hit snapshot state cfg =
     (let time_stop = cfg_get (time_stop_candles (rules cfg)) 0
      in if time_stop \<noteq> 0 then
           (case (candle_index snapshot, entry_index state) of
              (Some cur, Some ei) \<Rightarrow> time_stop \<le> cur - ei
            | _ \<Rightarrow> time_stop \<le> time_in_trade state)
         else False)"

definition propose_trade ::
  "Snapshot \<Rightarrow> TokenState \<Rightarrow> config \<Rightarrow> (string \<times> int) list \<Rightarrow> int
     \<Rightarrow> ActionProposal \<times> TokenState" where
  "propose_trade snapshot state cfg grds expires =
     (case progress_check snapshot state cfg grds expires of
        (Some p, state) \<Rightarrow> (p, state)
      | (None, state) \<Rightarrow>
          if struct_stop_hit snapshot state cfg
          then (proposal ACTION_EXIT_FULL [''STRUCT_STOP''] grds expires, state)
          else if time_stop_hit snapshot state cfg
          then (proposal ACTION_EXIT_FULL [''TIME_STOP''] grds expires, state)
          else if (case support_level snapshot of
                     None \<Rightarrow> False
                   | Some z \<Rightarrow> last_close snapshot < zone_low z)
          then (proposal ACTION_EXIT_FULL [''SUPPORT_BREAK''] grds expires, state)
          else
            let levels = resistance_levels snapshot
            in if levels \<noteq> [] \<and> scale_out_stage state = 0 \<and> 1 \<le> length levels
                  \<and> zone_low (levels ! 0) \<le> last_close snapshot
               then (proposal ACTION_SCALE_OUT_20 [''R1_TOUCH''] grds expires, state)
               else if levels \<noteq> [] \<and> scale_out_stage state = 1 \<and> 2 \<le> length levels
                  \<and> zone_low (levels ! 1) \<le> last_close snapshot
               then (proposal ACTION_SCALE_OUT_20 [''R2_TOUCH''] grds expires, state)
               else if levels \<noteq> [] \<and> 2 \<le> scale_out_stage state \<and> 3 \<le> length levels
                  \<and> zone_low (levels ! 2) \<le> last_close snapshot
               then (proposal ACTION_EXIT_FULL [''R3_TOUCH''] grds expires, state)
               else (proposal ACTION_HOLD [''HOLD_TRADE''] grds expires, state))"

definition propose_action :: "Snapshot \<Rightarrow> TokenState \<Rightarrow> config \<Rightarrow> ActionProposal \<times> TokenState" where
  "propose_action snapshot state cfg =
     (let expires = py_int (of_int (now_ts snapshot) + cfg_get (poll_interval_sec (engine cfg)) 1);
          grds = [(''max_slippage_bps'', py_int (cfg_get (max_slippage_bps (risk cfg)) 0))]
      in if status state = STATE_COOLDOWN
         then (proposal ACTION_HOLD [''COOLDOWN''] grds expires, state)
         else if status state = STATE_SCOUT then propose_scout snapshot state cfg grds expires
         else if status state = STATE_PROBE then propose_probe snapshot state cfg grds expires
         else if status state = STATE_TRADE then propose_trade snapshot state cfg grds expires
         else (proposal ACTION_HOLD [''DEFAULT_HOLD''] grds expires, state))"

section \<open>Ranker (app/orchestrator/runner.py)\<close>

text \<open>
  A score component is the dict \<open>{"feature": f, "contribution": c, "value": v}\<close>.
  \<open>list.sort(key, reverse=True)\<close> is stable: it is the stable ascending sort on the
  negated key.
\<close>

type_synonym score_component = "string \<times> real \<times> real"

record score_detail =
  sd_total :: real
  sd_components :: "score_component list"
  sd_top_features :: "string list"

definition empty_detail :: score_detail where
  "empty_detail = \<lparr>sd_total = 0, sd_components = [], sd_top_features = []\<rparr>"

definition momentum_score_detail :: "Candle list \<Rightarrow> int \<Rightarrow> score_detail" where
  "momentum_score_detail cands lookback0 =
     (if lookback0 \<le> 0 then empty_detail
      else
        let lookback = (if int (length cands) < lookback0 + 1
                        then max 1 (int (length cands) - 1) else lookback0)
        in if int (length cands) < lookback + 1 then empty_detail
           else
             let window = py_slice_from cands (- (lookback + 1));
                 close_now = cd_c (last window);
                 close_then = cd_c (hd window)
             in if close_then \<le> 0 then empty_detail
                else
                  let ret = close_now / close_then - 1;
                      vols = map cd_v (butlast window);
                      median_vol = (if vols \<noteq> [] then median vols else 0);
                      vol_mult = (if 0 < median_vol then last vols / median_vol else 1);
                      ranges = rel_ranges (butlast window);
                      median_range = (if ranges \<noteq> [] then median ranges else 0);
                      range_now = (cd_h (last window) - cd_l (last window))
                                    / max close_now (1 / 10 ^ 9);
                      range_mult = (if 0 < median_range then range_now / median_range else 1);
                      return_contrib = 100 * ret;
                      volume_contrib = (if 0 < median_vol
                                        then 10 * ln (1 + max 0 (vol_mult - 1)) else 0);
                      range_contrib = (if 0 < median_range
                                       then 5 * ln (1 + max 0 (range_mult - 1)) else 0);
                      comps = [(''return_pct'', return_contrib, ret),
                               (''volume_mult'', volume_contrib, vol_mult),
                               (''range_mult'', range_contrib, range_mult)];
                      comps = sort_key (\<lambda>(f, contribution, x). - \<bar>contribution\<bar>) comps;
                      total_score = return_contrib + volume_contrib + range_contrib;
                      top = map fst (take 2 comps)
                  in \<lparr>sd_total = total_score, sd_components = comps, sd_top_features = top\<rparr>)"

definition apply_score_adjustments ::
  "real \<Rightarrow> (string \<rightharpoonup> pyval) \<Rightarrow> config \<Rightarrow> real \<times> score_component list" where
  "apply_score_adjustments score0 feats cfg =
     (let bonus = cfg_get (chain_override_score_bonus (breakout cfg)) 0;
          penalty = cfg_get (weak_breakout_score_penalty (breakout cfg)) 0;
          score = score0;
          adjustments = [];
          (score, adjustments) =
            (if py_truthy (feats ''chain_override'')
             then (score + bonus, adjustments @ [(''chain_override_bonus'', bonus, bonus)])
             else (score, adjustments));
          (score, adjustments) =
            (if \<not> py_truthy (feats ''breakout_strict'') \<and> py_truthy (feats ''provisional_candidate'')
             then (score - penalty, adjustments @ [(''weak_breakout_penalty'', - penalty, penalty)])
             else (score, adjustments))
      in (score, adjustments))"

text \<open>
  An entry of the tick's proposal list is a dict; the ranker reads its \<open>"proposal"\<close> and
  \<open>"snapshot"\<close> and writes \<open>"momentum_score"\<close>, \<open>"score_adjustments"\<close> and
  \<open>"proposal"\<close>. The other keys of the dict are the extension part of the record.
  The list \<open>entries\<close> of the source holds references to dicts of \<open>proposals\<close>, and the
  writes through it are seen in \<open>proposals\<close>: the proposal list is the store, a
  reference is an index into it, and \<open>entries\<close> is a list of indices.
\<close>

record rank_entry =
  en_proposal :: ActionProposal
  en_snapshot :: Snapshot
  en_momentum_score :: "real option"
  en_score_adjustments :: "score_component list option"

definition adjusted_score :: "'a rank_entry_scheme \<Rightarrow> int \<Rightarrow> config \<Rightarrow> real \<times> score_component list" where
  "adjusted_score entry lookback cfg =
     (let score_detail = momentum_score_detail (candles (en_snapshot entry)) lookback;
          raw_score = sd_total score_detail
      in apply_score_adjustments raw_score (features (en_snapshot entry)) cfg)"

fun score_entries ::
  "'a rank_entry_scheme list \<Rightarrow> nat list \<Rightarrow> int \<Rightarrow> config \<Rightarrow> 'a rank_entry_scheme list" where
  "score_entries store [] lookback cfg = store"
| "score_entries store (i # refs) lookback cfg =
     (let (adjusted, adjustments) = adjusted_score (store ! i) lookback cfg
      in score_entries
           (store[i := (store ! i)\<lparr>en_momentum_score := Some adjusted,
                                   en_score_adjustments := Some adjustments\<rparr>])
           refs lookback cfg)"

definition rank_out :: "'a rank_entry_scheme \<Rightarrow> 'a rank_entry_scheme" where
  "rank_out entry =
     entry\<lparr>en_proposal :=
       (en_proposal entry)\<lparr>action := ACTION_HOLD,
                            reason_codes := reason_codes (en_proposal entry) @ [''RANKED_OUT'']\<rparr>\<rparr>"

fun rank_out_entries :: "'a rank_entry_scheme list \<Rightarrow> nat list \<Rightarrow> 'a rank_entry_scheme list" where
  "rank_out_entries store [] = store"
| "rank_out_entries store (i # refs) = rank_out_entries (store[i := rank_out (store ! i)]) refs"

definition probe_buy_refs :: "'a rank_entry_scheme list \<Rightarrow> nat list" where
  "probe_buy_refs store =
     filter (\<lambda>i. action (en_proposal (store ! i)) = ACTION_PROBE_BUY) [0..<length store]"

definition rank_entry_proposals ::
  "'a rank_entry_scheme list \<Rightarrow> config \<Rightarrow> 'a rank_entry_scheme list" where
  "rank_entry_proposals proposals cfg =
     (let top_n = cfg_get (top_n_per_tick (rules cfg)) 0;
          min_candidates = cfg_get (min_candidates_before_rank (rules cfg)) 0;
          lookback = cfg_get (momentum_lookback (rules cfg)) 20;
          entries = probe_buy_refs proposals
      in if top_n \<le> 0 \<or> int (length entries) < max 1 min_candidates then proposals
         else
           let store = score_entries proposals entries lookback cfg;
               entries = sort_key (\<lambda>i. - cfg_get (en_momentum_score (store ! i)) 0) entries
           in rank_out_entries store (py_slice_from entries top_n))"

section \<open>Statements of the specification and sample inputs\<close>

text \<open>A feature value that is zero (a number) or false (a bool).\<close>

definition zero_or_false :: "pyval \<Rightarrow> bool" where
  "zero_or_false x = (case x of PyBool b \<Rightarrow> \<not> b | PyInt i \<Rightarrow> i = 0 | PyFloat r \<Rightarrow> r = 0)"

text \<open>
  The momentum score in the words of the specification: over the last \<open>lookback + 1\<close>
  candles, \<open>volume_mult\<close> and \<open>range_mult\<close> compare the latest bar with the median of
  the preceding window.
\<close>

definition momentum_window :: "Candle list \<Rightarrow> int \<Rightarrow> Candle list" where
  "momentum_window cands lookback = py_slice_from cands (- (lookback + 1))"

definition momentum_score_spec :: "Candle list \<Rightarrow> int \<Rightarrow> real" where
  "momentum_score_spec cands lookback =
     (let window = momentum_window cands lookback;
          latest = last window;
          preceding = butlast window;
          ret = cd_c latest / cd_c (hd window) - 1;
          volume_mult = cd_v latest / median (map cd_v preceding);
          range_mult = ((cd_h latest - cd_l latest) / cd_c latest)
                        / median (map (\<lambda>k. (cd_h k - cd_l k) / cd_c k) preceding)
      in 100 * ret + 10 * ln (1 + max 0 (volume_mult - 1)) + 5 * ln (1 + max 0 (range_mult - 1)))"

definition momentum_claim_pre :: "Candle list \<Rightarrow> int \<Rightarrow> bool" where
  "momentum_claim_pre cands lookback =
     (0 < lookback \<and> lookback + 1 \<le> int (length cands)
      \<and> 0 < cd_c (hd (momentum_window cands lookback))
      \<and> 0 < median (map cd_v (butlast (momentum_window cands lookback)))
      \<and> 0 < median (map (\<lambda>k. (cd_h k - cd_l k) / cd_c k)
                       (butlast (momentum_window cands lookback))))"

definition mk_candle :: "int \<Rightarrow> real \<Rightarrow> real \<Rightarrow> real \<Rightarrow> real \<Rightarrow> Candle" where
  "mk_candle ts hi lo cl vol = \<lparr>cd_t = ts, cd_o = cl, cd_h = hi, cd_l = lo, cd_c = cl, cd_v = vol\<rparr>"

text \<open>Two bars priced at 0.0000000005, the latest with twice the range of the first.\<close>

definition tiny_price_candles :: "Candle list" where
  "tiny_price_candles =
     [mk_candle 0 (1 / 10 ^ 9) 0 (1 / (2 * 10 ^ 9)) 1,
      mk_candle 60 (2 / 10 ^ 9) 0 (1 / (2 * 10 ^ 9)) 1]"

text \<open>Two bars with the same prices, the latest with three times the volume.\<close>

definition volume_surge_candles :: "Candle list" where
  "volume_surge_candles = [mk_candle 0 11 9 10 1, mk_candle 60 11 9 10 3]"

text \<open>The pending-breakout protocol: the conditions the policy evaluates in SCOUT.\<close>

definition strict_breakout :: "Snapshot \<Rightarrow> bool" where
  "strict_breakout snapshot =
     py_truthy (case features snapshot ''breakout_strict'' of
                  Some x \<Rightarrow> Some x
                | None \<Rightarrow> features snapshot ''breakout'')"

definition breakout_vol_ok :: "Snapshot \<Rightarrow> config \<Rightarrow> bool" where
  "breakout_vol_ok snapshot cfg =
     (let avg_vol = (case features snapshot ''avg_volume'' of None \<Rightarrow> 0 | Some x \<Rightarrow> py_float x);
          current_vol = (if candles snapshot \<noteq> [] then cd_v (last (candles snapshot)) else 0);
          vol_mult = cfg_get (vol_mult_unlock (reentry cfg)) 0
      in if 0 < vol_mult \<and> 0 < avg_vol then vol_mult * avg_vol < current_vol else False)"

text \<open>
  Re-entry is not locked: the \<open>can_reenter\<close> call of the strict-breakout branch, on the
  state as \<open>update_reentry_lockout\<close> leaves it, returns true.
\<close>

definition reentry_open :: "Snapshot \<Rightarrow> TokenState \<Rightarrow> config \<Rightarrow> bool" where
  "reentry_open snapshot state cfg =
     (let interval_sec = infer_interval_sec (candles snapshot);
          state = update_reentry_lockout state (now_ts snapshot) cfg interval_sec
                    (candle_index snapshot)
      in can_reenter (now_ts snapshot) (last_exit_ts state) (last_exit_index state)
           (last_exit_price state) (last_close snapshot) cfg (breakout_vol_ok snapshot cfg)
           (last_exit_was_stop state) (Some interval_sec) (candle_index snapshot))"

definition pending_cleared :: "TokenState \<Rightarrow> bool" where
  "pending_cleared state =
     (pending_breakout_index state = None \<and> pending_breakout_level state = None
      \<and> pending_breakout_expires_index state = None)"

text \<open>Ranking: the entries that are PROBE_BUY candidates, and what a demotion writes.\<close>

definition is_probe_buy :: "'a rank_entry_scheme \<Rightarrow> bool" where
  "is_probe_buy entry = (action (en_proposal entry) = ACTION_PROBE_BUY)"

definition ranked_out_proposal :: "ActionProposal \<Rightarrow> ActionProposal" where
  "ranked_out_proposal p =
     p\<lparr>action := ACTION_HOLD, reason_codes := reason_codes p @ [''RANKED_OUT'']\<rparr>"

definition entry_score :: "'a rank_entry_scheme \<Rightarrow> config \<Rightarrow> real" where
  "entry_score entry cfg =
     fst (adjusted_score entry (cfg_get (momentum_lookback (rules cfg)) 20) cfg)"

text \<open>
  The regime score in the words of the specification: each contribution clamped to its
  band, the total clamped to [0,100], rounded to the nearest integer (a tie goes to the
  even neighbour, as Python's \<open>round\<close> does).
\<close>

definition clamped :: "real \<Rightarrow> real \<Rightarrow> real \<Rightarrow> real" where
  "clamped x lo hi = (if x < lo then lo else if hi < x then hi else x)"

definition regime_sum_spec :: "real \<Rightarrow> real \<Rightarrow> real \<Rightarrow> real" where
  "regime_sum_spec ret vacc rr =
     clamped (50 + clamped (ret * 2000) (- 30) 30 + clamped (vacc * 20) (- 20) 20
                 + clamped ((rr - 1) * 20) (- 20) 20) 0 100"

definition nearest_int_ties_even :: "real \<Rightarrow> int \<Rightarrow> bool" where
  "nearest_int_ties_even x r =
     (\<bar>of_int r - x\<bar> < 1 / 2 \<or> (\<bar>of_int r - x\<bar> = 1 / 2 \<and> even r))"

text \<open>
  The lookback \<open>_momentum_score_detail\<close> works with: on fewer than \<open>lookback + 1\<close>
  candles it is cut to \<open>max(1, len(candles) - 1)\<close>.
\<close>

definition effective_lookback :: "Candle list \<Rightarrow> int \<Rightarrow> int" where
  "effective_lookback cands lookback =
     (if int (length cands) < lookback + 1 then max 1 (int (length cands) - 1) else lookback)"

text \<open>
  The score the ranker sorts by, written out: the momentum score over the effective
  lookback, plus the chain-override bonus, minus the weak-breakout penalty.
\<close>

definition ranking_score :: "'a rank_entry_scheme \<Rightarrow> config \<Rightarrow> real" where
  "ranking_score entry cfg =
     (let lookback = cfg_get (momentum_lookback (rules cfg)) 20;
          cands = candles (en_snapshot entry);
          feats = features (en_snapshot entry);
          momentum = (if lookback \<le> 0 then 0
                      else momentum_score cands (effective_lookback cands lookback))
      in momentum
         + (if py_truthy (feats ''chain_override'')
            then cfg_get (chain_override_score_bonus (breakout cfg)) 0 else 0)
         - (if \<not> py_truthy (feats ''breakout_strict'') \<and> py_truthy (feats ''provisional_candidate'')
            then cfg_get (weak_breakout_score_penalty (breakout cfg)) 0 else 0))"

text \<open>
  The adjusted momentum score in the words of the specification: the momentum score of
  the feature extractor, which is 0 on fewer than \<open>lookback + 1\<close> candles, with the same
  two adjustments.
\<close>

definition adjusted_momentum_score_spec :: "'a rank_entry_scheme \<Rightarrow> config \<Rightarrow> real" where
  "adjusted_momentum_score_spec entry cfg =
     momentum_score (candles (en_snapshot entry)) (cfg_get (momentum_lookback (rules cfg)) 20)
     + (if py_truthy (features (en_snapshot entry) ''chain_override'')
        then cfg_get (chain_override_score_bonus (breakout cfg)) 0 else 0)
     - (if \<not> py_truthy (features (en_snapshot entry) ''breakout_strict'')
           \<and> py_truthy (features (en_snapshot entry) ''provisional_candidate'')
        then cfg_get (weak_breakout_score_penalty (breakout cfg)) 0 else 0)"

text \<open>Sample inputs, after the repository's tests.\<close>

definition sample_config :: config where
  "sample_config =
     \<lparr>positioning = \<lparr>capital_usd = Some 1000, probe_pct = Some (1 / 10), add_pct = Some (1 / 5),
                      tp1_scale_out_pct = Some (1 / 5), tp2_scale_out_pct = Some (1 / 5)\<rparr>,
      engine = \<lparr>cooldown_candles = Some 5, poll_interval_sec = Some 1\<rparr>,
      rules = \<lparr>progress = \<lparr>min_move_pct = None, max_wait_candles = None,
                            breakeven_after_progress = None, trail_after_progress = None,
                            trail_lookback_lows = None\<rparr>,
               confirm_min_close_above_pct = Some (1 / 100),
               confirm_max_retrace_pct = Some (1 / 20),
               add_trigger_up_pct = Some (1 / 10),
               time_stop_candles = Some 120,
               top_n_per_tick = Some 1,
               min_candidates_before_rank = None,
               momentum_lookback = None\<rparr>,
      risk = \<lparr>min_liquidity_usd = Some 50000, max_slippage_bps = Some 150\<rparr>,
      reentry = \<lparr>lockout_candles = Some 10, min_breakout_pct = Some (1 / 10),
                 candle_seconds = None, vol_mult_unlock = Some 2\<rparr>,
      stops = \<lparr>stop_buffer_pct = Some (3 / 20)\<rparr>,
      breakout = \<lparr>chain_override_score_bonus = None, weak_breakout_score_penalty = None\<rparr>\<rparr>"

definition sample_pair :: "real \<Rightarrow> PairStats" where
  "sample_pair liq =
     \<lparr>pair_id = ''PAIR1'', token_mint = ''TOKEN1'', price_usd = 1, liquidity_usd = liq,
      volume_5m = 1000, txns_5m = 10\<rparr>"

definition sample_snapshot :: "int \<Rightarrow> real \<Rightarrow> real \<Rightarrow> real \<Rightarrow> bool \<Rightarrow> real \<Rightarrow> real \<Rightarrow> Snapshot" where
  "sample_snapshot idx cl lo hi brk highest liq =
     \<lparr>pair = sample_pair liq,
      candles = [mk_candle (1700000000 + idx * 60) hi lo cl 1000],
      support_zones = [], resistance_zones = [],
      features = map_of [(''breakout'', PyBool brk), (''highest_close'', PyFloat highest),
                         (''avg_volume'', PyFloat 1000)],
      regime_score = 50,
      now_ts = 1700000000 + idx * 60,
      candle_index = Some idx,
      last_close = cl, last_low = lo, last_high = hi,
      resistance_levels = [], support_level = None\<rparr>"

definition sample_calls :: "call list" where
  "sample_calls =
     [ApplyAction ''PROBE_BUY'' (sample_snapshot 10 (6 / 5) (11 / 10) (5 / 4) True 1 100000)
        sample_config None,
      AdvanceTime,
      ApplyAction ''EXIT_FULL'' (sample_snapshot 11 (27 / 25) (97 / 100) (11 / 10) False 1 100000)
        sample_config (Some [''STRUCT_STOP'']),
      AdvanceTime]"

definition sample_proposal :: "string \<Rightarrow> string list \<Rightarrow> ActionProposal" where
  "sample_proposal act reasons =
     \<lparr>action = act, reason_codes = reasons, guards = [(''max_slippage_bps'', 150)],
      expires_at = Some 1700000601\<rparr>"

definition sample_trades :: "trade list" where
  "sample_trades = [\<lparr>pnl_usd = Some 50, return_pct = Some (1 / 20)\<rparr>,
                    \<lparr>pnl_usd = None, return_pct = None\<rparr>]"

text \<open>Two bars, the close rising from 4 to 5, and two bars, the close falling from 10 to 9.\<close>

definition short_window_candles :: "Candle list" where
  "short_window_candles = [mk_candle 0 (22 / 5) (18 / 5) 4 1, mk_candle 60 (11 / 2) (9 / 2) 5 1]"

definition falling_candles :: "Candle list" where
  "falling_candles = [mk_candle 0 11 9 10 1, mk_candle 60 (99 / 10) (81 / 10) 9 1]"

definition ranking_config :: config where
  "ranking_config =
     sample_config\<lparr>breakout := \<lparr>chain_override_score_bonus = Some 5,
                                 weak_breakout_score_penalty = Some 3\<rparr>\<rparr>"

definition candidate ::
  "string \<Rightarrow> string list \<Rightarrow> Candle list \<Rightarrow> (string \<times> pyval) list \<Rightarrow> rank_entry" where
  "candidate act reasons cands feats =
     \<lparr>en_proposal = sample_proposal act reasons,
      en_snapshot = (sample_snapshot 10 1 1 1 False 1 100000)
                      \<lparr>candles := cands, features := map_of feats\<rparr>,
      en_momentum_score = None, en_score_adjustments = None\<rparr>"

definition override_candidate :: rank_entry where
  "override_candidate =
     candidate ''PROBE_BUY'' [''PROVISIONAL_CHAIN_OVERRIDE''] falling_candles
       [(''chain_override'', PyBool True), (''provisional_candidate'', PyBool True),
        (''breakout_strict'', PyBool False)]"

definition breakout_candidate :: rank_entry where
  "breakout_candidate =
     candidate ''PROBE_BUY'' [''BREAKOUT_CONFIRM''] short_window_candles
       [(''breakout_strict'', PyBool True), (''provisional_candidate'', PyBool True)]"

definition flat_candidate :: rank_entry where
  "flat_candidate =
     candidate ''PROBE_BUY'' [''BREAKOUT_CONFIRM''] [mk_candle 0 11 9 10 1]
       [(''breakout_strict'', PyBool True)]"

definition hold_entry :: rank_entry where
  "hold_entry = candidate ''HOLD'' [''NO_PRICE_EXPANSION''] short_window_candles []"

definition two_candidates :: "rank_entry list" where
  "two_candidates = [override_candidate, breakout_candidate]"

definition tick_entries :: "rank_entry list" where
  "tick_entries = [override_candidate, hold_entry, breakout_candidate, flat_candidate]"

section \<open>Properties\<close>

lemmas action_defs =
  ACTION_HOLD_def ACTION_PROBE_BUY_def ACTION_ADD_BUY_def ACTION_SCALE_OUT_20_def
  ACTION_EXIT_FULL_def

lemmas status_defs = STATE_SCOUT_def STATE_PROBE_def STATE_TRADE_def STATE_COOLDOWN_def


lemma py_round_lower: "0 \<le> x \<Longrightarrow> 0 \<le> py_round x"
  by (auto simp: py_round_def Let_def)

lemma py_round_upper:
  assumes "x \<le> of_int n"
  shows "py_round x \<le> n"
proof -
  have fl: "\<lfloor>x\<rfloor> \<le> n" using assms by (simp add: floor_le_iff)
  show ?thesis
  proof (cases "\<lfloor>x\<rfloor> = n")
    case True
    then have "x - of_int \<lfloor>x\<rfloor> \<le> 0" using assms by simp
    then show ?thesis using True by (simp add: py_round_def Let_def)
  next
    case False
    then have "\<lfloor>x\<rfloor> + 1 \<le> n" using fl by simp
    then show ?thesis using fl by (auto simp: py_round_def Let_def)
  qed
qed

subsection \<open>Regime score\<close>

lemma py_round_nearest: "nearest_int_ties_even x (py_round x)"
proof -
  define f where "f = \<lfloor>x\<rfloor>"
  define d where "d = x - of_int f"
  have d0: "0 \<le> d" and d1: "d < 1" unfolding d_def f_def by linarith+
  consider "d < 1 / 2" | "1 / 2 < d" | "d = 1 / 2" by linarith
  then show ?thesis
  proof cases
    case 1
    then have r: "py_round x = f" by (simp add: py_round_def Let_def f_def d_def)
    have "\<bar>of_int f - x\<bar> = d" using d0 by (simp add: d_def)
    then show ?thesis using 1 unfolding nearest_int_ties_even_def r by simp
  next
    case 2
    then have r: "py_round x = f + 1" by (simp add: py_round_def Let_def f_def d_def)
    have "\<bar>of_int (f + 1) - x\<bar> = 1 - d" using d1 by (simp add: d_def)
    then show ?thesis using 2 unfolding nearest_int_ties_even_def r by simp
  next
    case 3
    show ?thesis
    proof (cases "even f")
      case True
      then have r: "py_round x = f" using 3 by (simp add: py_round_def Let_def f_def d_def)
      have "\<bar>of_int f - x\<bar> = 1 / 2" using 3 by (simp add: d_def)
      then show ?thesis using True unfolding nearest_int_ties_even_def r by simp
    next
      case False
      then have r: "py_round x = f + 1" using 3 by (simp add: py_round_def Let_def f_def d_def)
      have "\<bar>of_int (f + 1) - x\<bar> = 1 / 2" using 3 by (simp add: d_def)
      then show ?thesis using False unfolding nearest_int_ties_even_def r by simp
    qed
  qed
qed

text \<open>At most one integer is nearest with ties to even, so the relation fixes the score.\<close>

lemma nearest_int_ties_even_unique:
  assumes "nearest_int_ties_even x r" and "nearest_int_ties_even x r'"
  shows "r = r'"
proof (rule ccontr)
  assume ne: "r \<noteq> r'"
  have a: "\<bar>of_int r - x\<bar> \<le> 1 / 2" and b: "\<bar>of_int r' - x\<bar> \<le> 1 / 2"
    using assms unfolding nearest_int_ties_even_def by auto
  have "\<bar>real_of_int r - of_int r'\<bar> \<le> 1" using a b by linarith
  then have "\<bar>r - r'\<bar> \<le> 1" by linarith
  then have c: "r' = r + 1 \<or> r = r' + 1" using ne by linarith
  then have "\<bar>real_of_int r - of_int r'\<bar> = 1" by auto
  then have "\<bar>of_int r - x\<bar> = 1 / 2" "\<bar>of_int r' - x\<bar> = 1 / 2" using a b by linarith+
  then have "even r" "even r'" using assms unfolding nearest_int_ties_even_def by auto
  then show False using c by auto
qed

lemma clamp_clamped: "lo \<le> hi \<Longrightarrow> clamp x lo hi = clamped x lo hi"
  by (auto simp: clamp_def clamped_def)

lemma compute_regime_score_value:
  "compute_regime_score ret vacc rr = py_round (regime_sum_spec ret vacc rr)"
  by (simp add: compute_regime_score_def regime_sum_spec_def Let_def clamp_clamped)

lemma regime_sum_spec_bounds:
  "0 \<le> regime_sum_spec ret vacc rr \<and> regime_sum_spec ret vacc rr \<le> 100"
  by (simp add: regime_sum_spec_def clamped_def)

text \<open>The score at sample inputs: neutral, the repository's test, both ends.\<close>

lemma compute_regime_score_samples:
  "compute_regime_score 0 0 1 = 50"
  "compute_regime_score (3 / 4) (2 / 7) (9 / 8) = 88"
  "compute_regime_score (- 1) (- 1) 0 = 0"
  "compute_regime_score 1 1 3 = 100"
  by (simp_all add: compute_regime_score_def clamp_def py_round_def Let_def)

text \<open>
  C8. For all (finite) inputs, \<open>compute_regime_score\<close> returns an integer in [0,100],
  and that integer is the rounding (to the nearest integer, a tie to the even one) of
  \<open>50 + clamp(return_pct*2000, -30, 30) + clamp(volume_accel*20, -20, 20)
     + clamp((range_ratio-1)*20, -20, 20)\<close> clamped to [0,100], where clamping a value
  to a band returns the lower bound below the band, the upper bound above it and the
  value itself inside.
\<close>

theorem compute_regime_score_range_and_value:
  "0 \<le> compute_regime_score ret vacc rr
   \<and> compute_regime_score ret vacc rr \<le> 100
   \<and> nearest_int_ties_even (regime_sum_spec ret vacc rr) (compute_regime_score ret vacc rr)"
proof -
  have lo: "0 \<le> py_round (regime_sum_spec ret vacc rr)"
    using regime_sum_spec_bounds py_round_lower by blast
  have hi: "py_round (regime_sum_spec ret vacc rr) \<le> 100"
    using regime_sum_spec_bounds py_round_upper [of "regime_sum_spec ret vacc rr" 100] by simp
  show ?thesis using lo hi py_round_nearest compute_regime_score_value by simp
qed

subsection \<open>Feature extractor on fewer than two candles\<close>

text \<open>
  Counterexample to C9 as stated: on the empty candle list the feature map holds
  \<open>price_range_ratio = 1.0\<close>, a numeric feature that is not zero.
\<close>

theorem compute_features_short_counterexample:
  "compute_features [] 20 1 (5 / 4) None (3 / 50) ''highest_close''
     = Inr (map_of insufficient_features)
   \<and> map_of insufficient_features ''price_range_ratio'' = Some (PyFloat 1)
   \<and> \<not> zero_or_false (PyFloat 1)"
  by (simp add: compute_features_def insufficient_features_def zero_or_false_def)

lemma insufficient_features_values:
  "map_of insufficient_features k = Some x \<Longrightarrow>
     (if k = ''price_range_ratio'' \<or> k = ''range_ratio'' then x = PyFloat 1 else zero_or_false x)"
  by (auto simp: insufficient_features_def zero_or_false_def split: if_splits)

lemma insufficient_features_dom:
  "dom (map_of insufficient_features) =
     {''highest_close'', ''lowest_close'', ''avg_volume'', ''breakout'', ''breakout_strict'',
      ''price_range_ratio'', ''range_compressed'', ''expansion_pct'', ''price_expanded'',
      ''return_pct'', ''volume_accel'', ''range_ratio'', ''regime_score''}"
  unfolding dom_map_of_conv_image_fst by (simp add: insufficient_features_def)

text \<open>
  C9 (amended). For every candle sequence with fewer than 2 elements,
  \<open>compute_features\<close> does not raise and returns the feature map with the thirteen
  feature keys in which \<open>price_range_ratio\<close> and \<open>range_ratio\<close> are 1.0, every other
  numeric feature is zero, every boolean feature is false, and \<open>regime_score\<close> is 0.
\<close>

theorem compute_features_short_window:
  assumes "length cands < 2"
  shows "\<exists>m. compute_features cands lookback vol_multiplier max_ratio comp_lookback
                 min_pct reference = Inr m
     \<and> dom m = {''highest_close'', ''lowest_close'', ''avg_volume'', ''breakout'',
          ''breakout_strict'', ''price_range_ratio'', ''range_compressed'', ''expansion_pct'',
          ''price_expanded'', ''return_pct'', ''volume_accel'', ''range_ratio'', ''regime_score''}
     \<and> (\<forall>k x. m k = Some x \<longrightarrow>
           (if k = ''price_range_ratio'' \<or> k = ''range_ratio'' then x = PyFloat 1
            else zero_or_false x))
     \<and> m ''regime_score'' = Some (PyInt 0)"
proof -
  have 1: "compute_features cands lookback vol_multiplier max_ratio comp_lookback
             min_pct reference = Inr (map_of insufficient_features)"
    using assms by (simp add: compute_features_def)
  have 3: "map_of insufficient_features ''regime_score'' = Some (PyInt 0)"
    by (simp add: insufficient_features_def)
  show ?thesis
    using 1 3 insufficient_features_dom insufficient_features_values by blast
qed

theorem compute_features_short_window_witness:
  "length [mk_candle 0 11 9 10 1] < 2
   \<and> (\<exists>m. compute_features [mk_candle 0 11 9 10 1] 20 1 (5 / 4) None (3 / 50) ''highest_close''
             = Inr m
        \<and> m ''range_ratio'' = Some (PyFloat 1)
        \<and> m ''highest_close'' = Some (PyFloat 0)
        \<and> m ''breakout_strict'' = Some (PyBool False)
        \<and> m ''regime_score'' = Some (PyInt 0))"
proof -
  have h: "length [mk_candle 0 11 9 10 1] < 2" by simp
  obtain m where m: "compute_features [mk_candle 0 11 9 10 1] 20 1 (5 / 4) None (3 / 50)
        ''highest_close'' = Inr m"
    and r: "m ''regime_score'' = Some (PyInt 0)"
    using compute_features_short_window [OF h] by blast
  have "m = map_of insufficient_features"
    using m by (simp add: compute_features_def)
  then have "m ''range_ratio'' = Some (PyFloat 1)" "m ''highest_close'' = Some (PyFloat 0)"
    "m ''breakout_strict'' = Some (PyBool False)"
    by (simp_all add: insufficient_features_def)
  then show ?thesis using h m r by blast
qed

subsection \<open>Momentum score\<close>

lemma momentum_window_tiny: "momentum_window tiny_price_candles 1 = tiny_price_candles"
  by (simp add: momentum_window_def py_slice_from_def slice_bound_def tiny_price_candles_def)

lemma momentum_window_surge: "momentum_window volume_surge_candles 1 = volume_surge_candles"
  by (simp add: momentum_window_def py_slice_from_def slice_bound_def volume_surge_candles_def)

lemma momentum_score_tiny: "momentum_score tiny_price_candles 1 = 0"
  by (simp add: momentum_score_def py_slice_from_def slice_bound_def tiny_price_candles_def
       mk_candle_def median_def rel_ranges_def Let_def)

lemma momentum_score_spec_tiny: "momentum_score_spec tiny_price_candles 1 = 5 * ln 2"
  by (simp add: momentum_score_spec_def momentum_window_tiny Let_def)
     (simp add: tiny_price_candles_def mk_candle_def median_def)

lemma momentum_claim_pre_tiny: "momentum_claim_pre tiny_price_candles 1"
  by (simp add: momentum_claim_pre_def momentum_window_tiny)
     (simp add: tiny_price_candles_def mk_candle_def median_def)

lemma momentum_score_surge: "momentum_score volume_surge_candles 1 = 0"
  by (simp add: momentum_score_def py_slice_from_def slice_bound_def volume_surge_candles_def
       mk_candle_def median_def rel_ranges_def Let_def)

lemma momentum_score_spec_surge: "momentum_score_spec volume_surge_candles 1 = 10 * ln 3"
  by (simp add: momentum_score_spec_def momentum_window_surge Let_def)
     (simp add: volume_surge_candles_def mk_candle_def median_def)

lemma momentum_claim_pre_surge: "momentum_claim_pre volume_surge_candles 1"
  by (simp add: momentum_claim_pre_def momentum_window_surge)
     (simp add: volume_surge_candles_def mk_candle_def median_def)

lemma momentum_score_detail_total:
  "sd_total (momentum_score_detail cands lookback) =
     (if lookback \<le> 0 then 0 else momentum_score cands (effective_lookback cands lookback))"
  by (simp add: momentum_score_detail_def momentum_score_def effective_lookback_def Let_def
      empty_detail_def)

lemma momentum_score_short: "momentum_score short_window_candles 1 = 25"
  by (simp add: short_window_candles_def momentum_score_def py_slice_from_def slice_bound_def
        mk_candle_def median_def rel_ranges_def Let_def)

lemma momentum_score_falling: "momentum_score falling_candles 1 = - 10"
  by (simp add: falling_candles_def momentum_score_def py_slice_from_def slice_bound_def
        mk_candle_def median_def rel_ranges_def Let_def)

lemma momentum_score_detail_short:
  "sd_total (momentum_score_detail short_window_candles 20) = 25"
proof -
  have "effective_lookback short_window_candles 20 = 1"
    by (simp add: effective_lookback_def short_window_candles_def)
  then show ?thesis by (simp add: momentum_score_detail_total momentum_score_short)
qed

text \<open>
  Counterexample to C6 as stated, at three inputs. The first two satisfy its hypotheses
  with \<open>lookback = 1\<close>. On \<open>tiny_price_candles\<close> the latest close is below \<open>1e-9\<close>:
  the code divides the latest range by \<open>max(close_now, 1e-9)\<close> and scores 0, the
  stated formula gives \<open>5 ln 2\<close>. On \<open>volume_surge_candles\<close> the latest bar has three
  times the volume of the bar before it: the code takes \<open>vols[-1]\<close>, the volume of the
  bar before the latest, and scores 0, the stated formula gives \<open>10 ln 3\<close>. On
  \<open>short_window_candles\<close> (2 candles, \<open>lookback = 20\<close>) the data is insufficient and
  \<open>momentum_score\<close> returns 0, but \<open>_momentum_score_detail\<close> cuts the lookback to 1
  and returns the total 25.
\<close>

theorem momentum_score_claim_counterexample:
  "momentum_claim_pre tiny_price_candles 1
   \<and> momentum_score tiny_price_candles 1 \<noteq> momentum_score_spec tiny_price_candles 1
   \<and> momentum_claim_pre volume_surge_candles 1
   \<and> momentum_score volume_surge_candles 1 \<noteq> momentum_score_spec volume_surge_candles 1
   \<and> int (length short_window_candles) < 20 + 1
   \<and> momentum_score short_window_candles 20 = 0
   \<and> sd_total (momentum_score_detail short_window_candles 20) \<noteq> 0"
proof -
  have "(0::real) < ln 2" "(0::real) < ln 3" by simp_all
  moreover have "int (length short_window_candles) < 20 + 1"
    "momentum_score short_window_candles 20 = 0"
    by (simp_all add: short_window_candles_def momentum_score_def)
  ultimately show ?thesis
    by (simp add: momentum_claim_pre_tiny momentum_claim_pre_surge momentum_score_tiny
        momentum_score_surge momentum_score_spec_tiny momentum_score_spec_surge
        momentum_score_detail_short)
qed

lemma momentum_window_length:
  assumes "0 < lookback" "lookback + 1 \<le> int (length cands)"
  shows "length (momentum_window cands lookback) = nat (lookback + 1)"
  using assms by (simp add: momentum_window_def py_slice_from_def slice_bound_def)

lemma momentum_preceding_nonempty:
  assumes "0 < lookback" "lookback + 1 \<le> int (length cands)"
  shows "butlast (momentum_window cands lookback) \<noteq> []"
proof -
  have "length (butlast (momentum_window cands lookback)) = nat (lookback + 1) - 1"
    using momentum_window_length [OF assms] by simp
  then have "0 < length (butlast (momentum_window cands lookback))" using assms by simp
  then show ?thesis by blast
qed

text \<open>What the code computes when every guard passes, bar by bar.\<close>

lemma momentum_score_unfold:
  assumes "0 < lookback" "lookback + 1 \<le> int (length cands)"
    and "0 < cd_c (hd (momentum_window cands lookback))"
    and "0 < median (map cd_v (butlast (momentum_window cands lookback)))"
    and "rel_ranges (butlast (momentum_window cands lookback)) \<noteq> []"
    and "0 < median (rel_ranges (butlast (momentum_window cands lookback)))"
  shows "momentum_score cands lookback =
      100 * (cd_c (last (momentum_window cands lookback))
               / cd_c (hd (momentum_window cands lookback)) - 1)
    + 10 * ln (1 + max 0 (cd_v (last (butlast (momentum_window cands lookback)))
                          / median (map cd_v (butlast (momentum_window cands lookback))) - 1))
    + 5 * ln (1 + max 0 (((cd_h (last (momentum_window cands lookback))
                             - cd_l (last (momentum_window cands lookback)))
                            / max (cd_c (last (momentum_window cands lookback))) (1 / 10 ^ 9))
                          / median (rel_ranges (butlast (momentum_window cands lookback))) - 1))"
proof -
  have ne: "butlast (momentum_window cands lookback) \<noteq> []"
    using momentum_preceding_nonempty assms(1,2) by blast
  have w: "py_slice_from cands (- (lookback + 1)) = momentum_window cands lookback"
    by (simp add: momentum_window_def)
  have w': "py_slice_from cands (- lookback - 1) = momentum_window cands lookback"
    by (simp add: momentum_window_def)
  show ?thesis
    using assms ne by (simp add: momentum_score_def Let_def w w' last_map)
qed

lemma momentum_score_zero:
  assumes "int (length cands) < lookback + 1 \<or> lookback \<le> 0
           \<or> cd_c (hd (momentum_window cands lookback)) \<le> 0"
  shows "momentum_score cands lookback = 0"
  using assms by (auto simp: momentum_score_def momentum_window_def Let_def)

text \<open>
  C6 (amended). For every candle list of length at least \<open>lookback + 1\<close>
  (\<open>lookback > 0\<close>) whose window of the last \<open>lookback + 1\<close> candles has a positive first
  close, a positive median volume of the preceding bars and a positive median relative
  range of the preceding bars with positive close, \<open>momentum_score\<close> and the total of
  \<open>_momentum_score_detail\<close> both equal
  \<open>100*return + 10*ln(1+max(0,volume_mult-1)) + 5*ln(1+max(0,range_mult-1))\<close>, where
  \<open>volume_mult\<close> is the volume of the last bar of the preceding window (the bar before
  the latest) divided by the median volume of the preceding bars, and \<open>range_mult\<close> is
  \<open>(high - low) / max(close, 1e-9)\<close> of the latest bar divided by that median relative
  range. \<open>momentum_score\<close> returns 0 for insufficient data (fewer than \<open>lookback + 1\<close>
  candles or \<open>lookback \<le> 0\<close>) or a non-positive reference close. The total of
  \<open>_momentum_score_detail\<close> is 0 for \<open>lookback \<le> 0\<close> and otherwise the
  \<open>momentum_score\<close> for the lookback cut to \<open>max(1, len(candles) - 1)\<close> when there
  are fewer than \<open>lookback + 1\<close> candles.
\<close>

theorem momentum_score_formula:
  "(0 < lookback \<and> lookback + 1 \<le> int (length cands)
      \<and> 0 < cd_c (hd (momentum_window cands lookback))
      \<and> 0 < median (map cd_v (butlast (momentum_window cands lookback)))
      \<and> rel_ranges (butlast (momentum_window cands lookback)) \<noteq> []
      \<and> 0 < median (rel_ranges (butlast (momentum_window cands lookback)))
    \<longrightarrow> momentum_score cands lookback =
              100 * (cd_c (last (momentum_window cands lookback))
                       / cd_c (hd (momentum_window cands lookback)) - 1)
            + 10 * ln (1 + max 0 (cd_v (last (butlast (momentum_window cands lookback)))
                         / median (map cd_v (butlast (momentum_window cands lookback))) - 1))
            + 5 * ln (1 + max 0 (((cd_h (last (momentum_window cands lookback))
                                     - cd_l (last (momentum_window cands lookback)))
                                    / max (cd_c (last (momentum_window cands lookback))) (1 / 10 ^ 9))
                         / median (rel_ranges (butlast (momentum_window cands lookback))) - 1))
        \<and> sd_total (momentum_score_detail cands lookback) = momentum_score cands lookback)
   \<and> (int (length cands) < lookback + 1 \<or> lookback \<le> 0
        \<or> cd_c (hd (momentum_window cands lookback)) \<le> 0
      \<longrightarrow> momentum_score cands lookback = 0)
   \<and> sd_total (momentum_score_detail cands lookback)
       = (if lookback \<le> 0 then 0
          else momentum_score cands
                 (if int (length cands) < lookback + 1 then max 1 (int (length cands) - 1)
                  else lookback))"
  (is "(?A \<longrightarrow> ?F \<and> ?E) \<and> (?Z \<longrightarrow> ?R) \<and> ?D")
proof -
  have d: ?D
    using momentum_score_detail_total [of cands lookback] by (simp add: effective_lookback_def)
  have f: "?F \<and> ?E" if a: ?A
  proof -
    have ?F using momentum_score_unfold [of lookback cands] a by blast
    moreover have ?E using d a by simp
    ultimately show ?thesis by blast
  qed
  have z: ?R if ?Z using that by (rule momentum_score_zero)
  show ?thesis using d f z by blast
qed

theorem momentum_score_formula_witness:
  "0 < (1::int) \<and> 1 + 1 \<le> int (length volume_surge_candles)
   \<and> 0 < cd_c (hd (momentum_window volume_surge_candles 1))
   \<and> 0 < median (map cd_v (butlast (momentum_window volume_surge_candles 1)))
   \<and> rel_ranges (butlast (momentum_window volume_surge_candles 1)) \<noteq> []
   \<and> 0 < median (rel_ranges (butlast (momentum_window volume_surge_candles 1)))
   \<and> cd_v (last (butlast (momentum_window volume_surge_candles 1))) = 1
   \<and> cd_v (last (momentum_window volume_surge_candles 1)) = 3
   \<and> momentum_score volume_surge_candles 1
        = 100 * (10 / 10 - 1) + 10 * ln (1 + max 0 (1 / 1 - 1))
          + 5 * ln (1 + max 0 ((11 - 9) / 10 / (1 / 5) - 1))
   \<and> sd_total (momentum_score_detail volume_surge_candles 1)
        = momentum_score volume_surge_candles 1
   \<and> int (length ([] :: Candle list)) < 1 + 1
   \<and> momentum_score [] 1 = 0
   \<and> sd_total (momentum_score_detail short_window_candles 20)
        = momentum_score short_window_candles 1"
proof -
  have h: "0 < (1::int) \<and> 1 + 1 \<le> int (length volume_surge_candles)
   \<and> 0 < cd_c (hd (momentum_window volume_surge_candles 1))
   \<and> 0 < median (map cd_v (butlast (momentum_window volume_surge_candles 1)))
   \<and> rel_ranges (butlast (momentum_window volume_surge_candles 1)) \<noteq> []
   \<and> 0 < median (rel_ranges (butlast (momentum_window volume_surge_candles 1)))"
    unfolding momentum_window_surge
    by (simp add: volume_surge_candles_def mk_candle_def median_def rel_ranges_def)
  have v: "median (map cd_v (butlast volume_surge_candles)) = 1"
    "median (rel_ranges (butlast volume_surge_candles)) = 1 / 5"
    "cd_c (last volume_surge_candles) = 10" "cd_c (hd volume_surge_candles) = 10"
    "cd_h (last volume_surge_candles) = 11" "cd_l (last volume_surge_candles) = 9"
    "cd_v (last (butlast volume_surge_candles)) = 1" "cd_v (last volume_surge_candles) = 3"
    by (simp_all add: volume_surge_candles_def mk_candle_def median_def rel_ranges_def)
  have e: "int (length ([] :: Candle list)) < 1 + 1" by simp
  have s: "int (length short_window_candles) < 20 + 1"
    "max 1 (int (length short_window_candles) - 1) = 1"
    by (simp_all add: short_window_candles_def)
  show ?thesis
    using h e s momentum_score_formula [of 1 volume_surge_candles]
      momentum_score_formula [of 1 "[]"]
      momentum_score_formula [of 20 short_window_candles]
    unfolding momentum_window_surge v
    by simp
qed

subsection \<open>State machine\<close>

lemma advance_time_invariant: "position_invariant s \<Longrightarrow> position_invariant (advance_time s)"
  by (auto simp: position_invariant_def advance_time_def Let_def status_defs)

lemma apply_action_invariant:
  "position_invariant s \<Longrightarrow> position_invariant (apply_action s act snap cfg codes)"
  by (auto simp: position_invariant_def apply_action_def clear_pending_breakout_def Let_def
        status_defs split: option.splits)

lemma run_call_invariant: "position_invariant s \<Longrightarrow> position_invariant (run_call s k)"
  by (cases k) (simp_all add: advance_time_invariant apply_action_invariant)

lemma run_calls_invariant:
  "position_invariant s \<Longrightarrow> position_invariant (run_calls s calls)"
  unfolding run_calls_def
  by (induction calls arbitrary: s) (simp_all add: run_call_invariant)

lemma initial_state_invariant: "position_invariant initial_state"
  by (simp add: position_invariant_def initial_state_def)

text \<open>
  C1. Starting from the initial TokenState (status SCOUT, position_usd 0), every sequence
  of \<open>advance_time\<close> and \<open>apply_action\<close> calls, with any action string (PROBE_BUY,
  ADD_BUY, SCALE_OUT_20, EXIT_FULL or an unknown one), leaves a state in which
  \<open>position_usd = 0\<close> whenever the status is SCOUT or COOLDOWN.
\<close>

theorem position_invariant_preserved:
  "position_invariant (run_calls initial_state calls)"
  by (rule run_calls_invariant [OF initial_state_invariant])

theorem position_invariant_preserved_witness:
  "status (run_calls initial_state sample_calls) = STATE_COOLDOWN
   \<and> cooldown_left (run_calls initial_state sample_calls) = 4
   \<and> position_usd (run_calls initial_state sample_calls) = 0"
proof -
  have st: "status (run_calls initial_state sample_calls) = STATE_COOLDOWN
            \<and> cooldown_left (run_calls initial_state sample_calls) = 4"
    by (simp add: run_calls_def sample_calls_def initial_state_def apply_action_def
        advance_time_def clear_pending_breakout_def sample_snapshot_def sample_config_def
        cfg_get_def status_defs Let_def)
  show ?thesis
    using st position_invariant_preserved [of sample_calls]
    by (simp add: position_invariant_def)
qed

text \<open>
  C3. With \<open>last_exit_was_stop\<close> true, \<open>last_exit_price\<close> set, both \<open>now_index\<close> and
  \<open>last_exit_index\<close> available, \<open>lockout_candles > 0\<close> and \<open>vol_ok\<close> false,
  \<open>can_reenter\<close> is false while \<open>now_index - last_exit_index < 3 * lockout_candles\<close>,
  unless \<open>current_close \<ge> last_exit_price * (1 + min_breakout_pct)\<close>, and true once
  \<open>3 * lockout_candles\<close> bars have elapsed.
\<close>

theorem can_reenter_stop_lockout:
  assumes "lockout_candles (reentry cfg) = Some n" and "0 < n"
    and "exit_price = Some price"
    and "now_idx = Some ni" and "exit_idx = Some li"
  shows "can_reenter now exit_ts exit_idx exit_price current_close cfg False True
           interval_sec now_idx
         = (3 * n \<le> ni - li
            \<or> price * (1 + cfg_get (min_breakout_pct (reentry cfg)) 0) \<le> current_close)"
  using assms by (auto simp: can_reenter_def lockout_candles_for_def cfg_get_def Let_def)

theorem can_reenter_stop_lockout_witness:
  "lockout_candles (reentry sample_config) = Some 10 \<and> (0::int) < 10
   \<and> can_reenter 0 None (Some 100) (Some 100) 105 sample_config False True None (Some 120)
       = False
   \<and> can_reenter 0 None (Some 100) (Some 100) 111 sample_config False True None (Some 120)
       = True
   \<and> can_reenter 0 None (Some 100) (Some 100) 105 sample_config False True None (Some 130)
       = True"
proof -
  have h: "lockout_candles (reentry sample_config) = Some 10" "(0::int) < 10"
    by (simp_all add: sample_config_def)
  have m: "cfg_get (min_breakout_pct (reentry sample_config)) 0 = 1 / 10"
    by (simp add: sample_config_def cfg_get_def)
  show ?thesis
    using h
      can_reenter_stop_lockout [where cfg = sample_config and n = 10
        and exit_price = "Some 100" and price = 100 and now_idx = "Some 120" and ni = 120
        and exit_idx = "Some 100" and li = 100 and now = 0 and exit_ts = None
        and current_close = 105 and interval_sec = None]
      can_reenter_stop_lockout [where cfg = sample_config and n = 10
        and exit_price = "Some 100" and price = 100 and now_idx = "Some 120" and ni = 120
        and exit_idx = "Some 100" and li = 100 and now = 0 and exit_ts = None
        and current_close = 111 and interval_sec = None]
      can_reenter_stop_lockout [where cfg = sample_config and n = 10
        and exit_price = "Some 100" and price = 100 and now_idx = "Some 130" and ni = 130
        and exit_idx = "Some 100" and li = 100 and now = 0 and exit_ts = None
        and current_close = 105 and interval_sec = None]
    by (simp add: m)
qed

subsection \<open>Risk validator\<close>

text \<open>
  C10. For every proposal whose action is HOLD, \<open>validate_action\<close> returns that proposal
  unchanged, whatever the snapshot, state and configuration: no rejection check is
  evaluated, so no \<open>REJECT_*\<close> code is added, also below the minimum liquidity or in
  cooldown.
\<close>

theorem validate_action_hold_identity:
  "action p = ACTION_HOLD \<Longrightarrow> validate_action p snap s cfg = p"
  by (simp add: validate_action_def)

theorem validate_action_hold_identity_witness:
  "action (sample_proposal ''HOLD'' [''COOLDOWN'']) = ACTION_HOLD
   \<and> status (initial_state\<lparr>status := STATE_COOLDOWN\<rparr>) = ''COOLDOWN''
   \<and> liquidity_usd (pair (sample_snapshot 10 1 1 1 False 1 100))
       < cfg_get (min_liquidity_usd (risk sample_config)) 0
   \<and> validate_action (sample_proposal ''HOLD'' [''COOLDOWN''])
        (sample_snapshot 10 1 1 1 False 1 100)
        (initial_state\<lparr>status := STATE_COOLDOWN\<rparr>) sample_config
       = sample_proposal ''HOLD'' [''COOLDOWN'']"
proof -
  have h: "action (sample_proposal ''HOLD'' [''COOLDOWN'']) = ACTION_HOLD"
    by (simp add: sample_proposal_def ACTION_HOLD_def)
  have c: "status (initial_state\<lparr>status := STATE_COOLDOWN\<rparr>) = ''COOLDOWN''"
    "liquidity_usd (pair (sample_snapshot 10 1 1 1 False 1 100))
       < cfg_get (min_liquidity_usd (risk sample_config)) 0"
    by (simp_all add: STATE_COOLDOWN_def sample_snapshot_def sample_pair_def sample_config_def
        cfg_get_def)
  show ?thesis
    using h c validate_action_hold_identity [OF h] by simp
qed

text \<open>
  C4. For every proposal whose action is not HOLD: if any rejection condition holds
  (status COOLDOWN; liquidity below \<open>min_liquidity_usd\<close>; a scale-out or full exit with
  \<open>position_usd \<le> 0\<close>; estimated slippage above \<open>max_slippage_bps\<close>),
  \<open>validate_action\<close> returns a HOLD proposal whose reason codes are exactly the
  \<open>REJECT_<CODE>\<close> entries of the conditions that hold, in check order, the input's own
  reason codes being discarded (guards and expiry are kept); if none holds, the input
  proposal is returned unchanged.
\<close>

theorem validate_action_rejections:
  assumes "action p \<noteq> ACTION_HOLD"
  shows "validate_action p snap s cfg =
     (if rejections_spec p snap s cfg = [] then p
      else \<lparr>action = ACTION_HOLD, reason_codes = rejections_spec p snap s cfg,
             guards = guards p, expires_at = expires_at p\<rparr>)"
  using assms by (simp add: validate_action_def rejections_spec_def Let_def action_defs)

lemma sample_slippage:
  "estimate_slippage_bps 100 100 = 5000" "estimate_slippage_bps 100 100000 = 10"
  by (simp_all add: estimate_slippage_bps_def py_int_def Let_def)

lemma sample_notional:
  "action_notional_usd ''PROBE_BUY'' s sample_config = 100"
  by (simp add: action_notional_usd_def sample_config_def cfg_get_def action_defs)

theorem validate_action_rejections_witness:
  "action (sample_proposal ''PROBE_BUY'' [''BREAKOUT_CONFIRM'']) \<noteq> ACTION_HOLD
   \<and> validate_action (sample_proposal ''PROBE_BUY'' [''BREAKOUT_CONFIRM''])
        (sample_snapshot 10 1 1 1 False 1 100) initial_state sample_config
       = sample_proposal ''HOLD'' [''REJECT_LOW_LIQUIDITY'', ''REJECT_SLIPPAGE_TOO_HIGH'']
   \<and> validate_action (sample_proposal ''PROBE_BUY'' [''BREAKOUT_CONFIRM''])
        (sample_snapshot 10 1 1 1 False 1 100000) initial_state sample_config
       = sample_proposal ''PROBE_BUY'' [''BREAKOUT_CONFIRM'']"
proof -
  have h: "action (sample_proposal ''PROBE_BUY'' [''BREAKOUT_CONFIRM'']) \<noteq> ACTION_HOLD"
    by (simp add: sample_proposal_def ACTION_HOLD_def)
  have r1: "rejections_spec (sample_proposal ''PROBE_BUY'' [''BREAKOUT_CONFIRM''])
        (sample_snapshot 10 1 1 1 False 1 100) initial_state sample_config
      = [''REJECT_LOW_LIQUIDITY'', ''REJECT_SLIPPAGE_TOO_HIGH'']"
    unfolding rejections_spec_def
    by (simp add: sample_proposal_def sample_notional sample_slippage)
       (simp add: sample_snapshot_def sample_pair_def sample_config_def cfg_get_def
          initial_state_def status_defs sample_slippage)
  have r2: "rejections_spec (sample_proposal ''PROBE_BUY'' [''BREAKOUT_CONFIRM''])
        (sample_snapshot 10 1 1 1 False 1 100000) initial_state sample_config = []"
    unfolding rejections_spec_def
    by (simp add: sample_proposal_def sample_notional sample_slippage)
       (simp add: sample_snapshot_def sample_pair_def sample_config_def cfg_get_def
          initial_state_def status_defs sample_slippage)
  show ?thesis
    using h
      validate_action_rejections [OF h, of "sample_snapshot 10 1 1 1 False 1 100"
        initial_state sample_config]
      validate_action_rejections [OF h, of "sample_snapshot 10 1 1 1 False 1 100000"
        initial_state sample_config]
    by (simp add: r1 r2) (simp add: sample_proposal_def ACTION_HOLD_def)
qed

subsection \<open>Backtest metrics\<close>

lemma equity_loop_last:
  "curve \<noteq> [] \<Longrightarrow> last curve = e \<Longrightarrow>
     equity_loop e curve trs \<noteq> [] \<and>
     last (equity_loop e curve trs) = e + sum_list (map (\<lambda>tr. cfg_get (pnl_usd tr) 0) trs)"
  by (induction trs arbitrary: e curve) (simp_all add: Let_def)

lemma equity_curve_last:
  "equity_curve sc trs \<noteq> [] \<and>
   last (equity_curve sc trs) = sc + sum_list (map (\<lambda>tr. cfg_get (pnl_usd tr) 0) trs)"
  unfolding equity_curve_def by (rule equity_loop_last) simp_all

lemma profit_factor_no_losses:
  assumes "\<forall>tr \<in> set trs. \<not> cfg_get (pnl_usd tr) 0 < 0"
  shows "profit_factor trs =
     (if 0 < sum_list (map (\<lambda>tr. cfg_get (pnl_usd tr) 0)
                        (filter (\<lambda>tr. 0 < cfg_get (pnl_usd tr) 0) trs))
      then PosInf else Finite 0)"
proof -
  have "filter (\<lambda>tr. cfg_get (pnl_usd tr) 0 < 0) trs = []"
    using assms by (simp add: filter_empty_conv)
  then show ?thesis by (simp add: profit_factor_def Let_def)
qed

lemma no_wins_sum:
  assumes "\<forall>tr \<in> set trs. \<not> 0 < cfg_get (pnl_usd tr) 0"
  shows "sum_list (map (\<lambda>tr. cfg_get (pnl_usd tr) 0)
                        (filter (\<lambda>tr. 0 < cfg_get (pnl_usd tr) 0) trs)) = 0"
proof -
  have "filter (\<lambda>tr. 0 < cfg_get (pnl_usd tr) 0) trs = []"
    using assms by (simp add: filter_empty_conv)
  then show ?thesis by simp
qed

text \<open>
  C7. For every \<open>starting_capital > 0\<close> and every trade list, \<open>compute_metrics\<close> returns
  (without raising) \<open>total_return_pct = final_equity / starting_capital - 1\<close>, where
  \<open>final_equity\<close>, the last point of the equity curve, is \<open>starting_capital\<close> plus the
  sum of all trades' \<open>pnl_usd\<close>; \<open>profit_factor\<close> is positive infinity when the sum of
  winning pnl is positive and there are no losing trades, and 0 when there are neither
  winning nor losing trades.
\<close>

theorem compute_metrics_return_and_profit_factor:
  assumes "0 < sc"
  shows "\<exists>m. compute_metrics sc trs = Inr m
     \<and> last (equity_curve sc trs) = sc + sum_list (map (\<lambda>tr. cfg_get (pnl_usd tr) 0) trs)
     \<and> m ''total_return_pct''
         = Some (MetricFloat (Finite (last (equity_curve sc trs) / sc - 1)))
     \<and> (0 < sum_list (map (\<lambda>tr. cfg_get (pnl_usd tr) 0)
                        (filter (\<lambda>tr. 0 < cfg_get (pnl_usd tr) 0) trs))
          \<and> (\<forall>tr \<in> set trs. \<not> cfg_get (pnl_usd tr) 0 < 0)
         \<longrightarrow> m ''profit_factor'' = Some (MetricFloat PosInf))
     \<and> ((\<forall>tr \<in> set trs. \<not> 0 < cfg_get (pnl_usd tr) 0 \<and> \<not> cfg_get (pnl_usd tr) 0 < 0)
         \<longrightarrow> m ''profit_factor'' = Some (MetricFloat (Finite 0)))"
proof -
  have ne: "equity_curve sc trs \<noteq> []" using equity_curve_last by blast
  have a: "(0 < sum_list (map (\<lambda>tr. cfg_get (pnl_usd tr) 0)
                        (filter (\<lambda>tr. 0 < cfg_get (pnl_usd tr) 0) trs))
          \<and> (\<forall>tr \<in> set trs. \<not> cfg_get (pnl_usd tr) 0 < 0))
         \<longrightarrow> profit_factor trs = PosInf"
    using profit_factor_no_losses by simp
  have b: "(\<forall>tr \<in> set trs. \<not> 0 < cfg_get (pnl_usd tr) 0 \<and> \<not> cfg_get (pnl_usd tr) 0 < 0)
         \<longrightarrow> profit_factor trs = Finite 0"
    using profit_factor_no_losses [of trs] no_wins_sum [of trs] by auto
  show ?thesis
    using assms ne a b equity_curve_last [of sc trs]
    by (simp add: compute_metrics_def Let_def)
qed

theorem compute_metrics_return_and_profit_factor_witness:
  "(0::real) < 1000
   \<and> (\<exists>m. compute_metrics 1000 sample_trades = Inr m
        \<and> m ''total_return_pct'' = Some (MetricFloat (Finite (1 / 20)))
        \<and> m ''profit_factor'' = Some (MetricFloat PosInf))
   \<and> (\<exists>m. compute_metrics 1000 [] = Inr m
        \<and> m ''total_return_pct'' = Some (MetricFloat (Finite 0))
        \<and> m ''profit_factor'' = Some (MetricFloat (Finite 0)))"
proof -
  have h: "(0::real) < 1000" by simp
  have e1: "equity_curve 1000 sample_trades = [1000, 1050, 1050]"
    by (simp add: equity_curve_def sample_trades_def cfg_get_def)
  have e2: "equity_curve 1000 [] = [1000]"
    by (simp add: equity_curve_def)
  have p1: "0 < sum_list (map (\<lambda>tr. cfg_get (pnl_usd tr) 0)
                        (filter (\<lambda>tr. 0 < cfg_get (pnl_usd tr) 0) sample_trades))
          \<and> (\<forall>tr \<in> set sample_trades. \<not> cfg_get (pnl_usd tr) 0 < 0)"
    by (simp add: sample_trades_def cfg_get_def)
  show ?thesis
    using h compute_metrics_return_and_profit_factor [OF h, of sample_trades]
      compute_metrics_return_and_profit_factor [OF h, of "[]"] p1
    by (simp add: e1 e2) blast
qed

subsection \<open>Pending-breakout protocol\<close>

lemma update_reentry_lockout_fields:
  "status (update_reentry_lockout s n cfg iv ni) = status s"
  "pending_breakout_index (update_reentry_lockout s n cfg iv ni) = pending_breakout_index s"
  "pending_breakout_level (update_reentry_lockout s n cfg iv ni) = pending_breakout_level s"
  "pending_breakout_expires_index (update_reentry_lockout s n cfg iv ni)
     = pending_breakout_expires_index s"
  "last_exit_ts (update_reentry_lockout s n cfg iv ni) = last_exit_ts s"
  "last_exit_index (update_reentry_lockout s n cfg iv ni) = last_exit_index s"
  "last_exit_price (update_reentry_lockout s n cfg iv ni) = last_exit_price s"
  by (simp_all add: update_reentry_lockout_def)

lemma clear_pending_cleared: "pending_cleared (clear_pending_breakout st)"
  by (simp add: pending_cleared_def clear_pending_breakout_def)

lemma propose_action_scout:
  assumes "status s = STATE_SCOUT"
  shows "propose_action snap s cfg =
      propose_scout snap s cfg
        [(''max_slippage_bps'', py_int (cfg_get (max_slippage_bps (risk cfg)) 0))]
        (py_int (of_int (now_ts snap) + cfg_get (poll_interval_sec (engine cfg)) 1))"
  using assms by (simp add: propose_action_def Let_def status_defs)

lemma arm_pending:
  assumes "status s = STATE_SCOUT"
    and "strict_breakout snap"
    and "candle_index snap = Some i"
    and "pending_cleared s"
    and "reentry_open snap s cfg"
    and "features snap ''highest_close'' = Some hc"
    and "propose_action snap s cfg = (p1, s1)"
  shows "action p1 = ACTION_HOLD \<and> reason_codes p1 = [''BREAKOUT_PENDING'']
         \<and> status s1 = STATE_SCOUT
         \<and> pending_breakout_index s1 = Some i
         \<and> pending_breakout_level s1 = Some (py_float hc)
         \<and> pending_breakout_expires_index s1 = Some (i + 3)"
proof -
  let ?s' = "update_reentry_lockout s (now_ts snap) cfg (infer_interval_sec (candles snap)) (Some i)"
  have np: "pending_breakout_index ?s' = None"
    using assms(4) by (simp add: update_reentry_lockout_fields pending_cleared_def)
  have cr: "can_reenter (now_ts snap) (last_exit_ts ?s') (last_exit_index ?s')
           (last_exit_price ?s') (last_close snap) cfg (breakout_vol_ok snap cfg)
           (last_exit_was_stop ?s') (Some (infer_interval_sec (candles snap))) (Some i)"
    using assms(5,3) by (simp add: reentry_open_def Let_def)
  note cr' = cr [unfolded breakout_vol_ok_def Let_def]
  have sb: "py_truthy (case features snap ''breakout_strict'' of
                  Some x \<Rightarrow> Some x
                | None \<Rightarrow> features snap ''breakout'')"
    using assms(2) by (simp add: strict_breakout_def)
  have "propose_scout snap s cfg g e =
      (proposal ACTION_HOLD [''BREAKOUT_PENDING''] g e,
       ?s'\<lparr>pending_breakout_index := Some i,
            pending_breakout_level := Some (py_float hc),
            pending_breakout_expires_index := Some (i + 3)\<rparr>)" for g e
    unfolding propose_scout_def Let_def
    using np cr' sb assms(3,6)
    by (simp add: update_reentry_lockout_fields split del: if_split)
  then show ?thesis
    using assms(7) unfolding propose_action_scout [OF assms(1)]
    by (auto simp: proposal_def update_reentry_lockout_fields assms(1))
qed

lemma pending_step:
  assumes "status st = STATE_SCOUT"
    and "pending_breakout_index st = Some i"
    and "pending_breakout_level st = Some level"
    and "pending_breakout_expires_index st = Some ex"
    and "candle_index snap = Some j"
    and "propose_action snap st cfg = (p, st')"
  shows "if ex < j
         then action p = ACTION_HOLD \<and> reason_codes p = [''BREAKOUT_EXPIRED'']
              \<and> pending_cleared st'
         else if level < last_close snap
                 \<and> level * (1 + cfg_get (confirm_min_close_above_pct (rules cfg)) (1 / 100))
                      \<le> last_close snap
                 \<and> level * (1 - cfg_get (confirm_max_retrace_pct (rules cfg)) (5 / 100))
                      \<le> last_low snap
         then action p = ACTION_PROBE_BUY \<and> reason_codes p = [''BREAKOUT_CONFIRM'']
              \<and> pending_cleared st'
         else action p = ACTION_HOLD \<and> reason_codes p = [''BREAKOUT_WAIT'']"
proof -
  let ?s' = "update_reentry_lockout st (now_ts snap) cfg (infer_interval_sec (candles snap)) (Some j)"
  have f: "pending_breakout_index ?s' = Some i" "pending_breakout_level ?s' = Some level"
    "pending_breakout_expires_index ?s' = Some ex"
    using assms(2,3,4) by (simp_all add: update_reentry_lockout_fields)
  have sc: "propose_scout snap st cfg g e =
      (if ex < j then (proposal ACTION_HOLD [''BREAKOUT_EXPIRED''] g e, clear_pending_breakout ?s')
       else if level < last_close snap
                 \<and> level * (1 + cfg_get (confirm_min_close_above_pct (rules cfg)) (1 / 100))
                      \<le> last_close snap
                 \<and> level * (1 - cfg_get (confirm_max_retrace_pct (rules cfg)) (5 / 100))
                      \<le> last_low snap
       then (proposal ACTION_PROBE_BUY [''BREAKOUT_CONFIRM''] g e, clear_pending_breakout ?s')
       else (proposal ACTION_HOLD [''BREAKOUT_WAIT''] g e, ?s'))" for g e
    unfolding propose_scout_def Let_def
    using f assms(5) by simp
  show ?thesis
    using assms(6) unfolding propose_action_scout [OF assms(1)] sc
    by (auto simp: proposal_def clear_pending_cleared split: if_splits)
qed

text \<open>
  C2. In SCOUT, for every snapshot with a strict breakout at candle index \<open>i\<close> (pending
  fields unset, re-entry not locked), \<open>propose_action\<close> sets
  \<open>pending_breakout_index = i\<close>, \<open>pending_breakout_level\<close> = the features'
  \<open>highest_close\<close>, \<open>pending_breakout_expires_index = i + 3\<close> and returns HOLD (reason
  BREAKOUT_PENDING). On a later call at index \<open>j\<close> on that state, with any snapshot and
  configuration: if \<open>j > i + 3\<close> it clears the pending fields and returns HOLD with
  reason BREAKOUT_EXPIRED; else if \<open>close > level\<close>,
  \<open>close \<ge> level * (1 + confirm_min_close_above_pct)\<close> and
  \<open>low \<ge> level * (1 - confirm_max_retrace_pct)\<close> it clears the pending fields and
  returns PROBE_BUY with reason BREAKOUT_CONFIRM; otherwise it returns HOLD with reason
  BREAKOUT_WAIT. The thresholds default to 0.01 and 0.05.
\<close>

theorem pending_breakout_protocol:
  assumes "status s = STATE_SCOUT"
    and "strict_breakout snap"
    and "candle_index snap = Some i"
    and "pending_cleared s"
    and "reentry_open snap s cfg"
    and "features snap ''highest_close'' = Some hc"
    and "propose_action snap s cfg = (p1, s1)"
    and "candle_index snap2 = Some j"
    and "propose_action snap2 s1 cfg2 = (p2, s2)"
  shows "action p1 = ACTION_HOLD \<and> reason_codes p1 = [''BREAKOUT_PENDING'']
     \<and> pending_breakout_index s1 = Some i
     \<and> pending_breakout_level s1 = Some (py_float hc)
     \<and> pending_breakout_expires_index s1 = Some (i + 3)
     \<and> (if i + 3 < j
         then action p2 = ACTION_HOLD \<and> reason_codes p2 = [''BREAKOUT_EXPIRED'']
              \<and> pending_cleared s2
         else if py_float hc < last_close snap2
                 \<and> py_float hc * (1 + cfg_get (confirm_min_close_above_pct (rules cfg2)) (1 / 100))
                      \<le> last_close snap2
                 \<and> py_float hc * (1 - cfg_get (confirm_max_retrace_pct (rules cfg2)) (5 / 100))
                      \<le> last_low snap2
         then action p2 = ACTION_PROBE_BUY \<and> reason_codes p2 = [''BREAKOUT_CONFIRM'']
              \<and> pending_cleared s2
         else action p2 = ACTION_HOLD \<and> reason_codes p2 = [''BREAKOUT_WAIT''])"
proof -
  note a = arm_pending [OF assms(1-7)]
  have st: "status s1 = STATE_SCOUT" and pi: "pending_breakout_index s1 = Some i"
    and pl: "pending_breakout_level s1 = Some (py_float hc)"
    and pe: "pending_breakout_expires_index s1 = Some (i + 3)"
    using a by simp_all
  note b = pending_step [OF st pi pl pe assms(8,9)]
  show ?thesis using a b by simp
qed

lemma sample_reentry_open:
  "reentry_open (sample_snapshot 10 (6 / 5) (11 / 10) (5 / 4) True 1 100000) initial_state
     sample_config"
  by (simp add: reentry_open_def Let_def update_reentry_lockout_def initial_state_def
      can_reenter_def)

theorem pending_breakout_protocol_witness:
  "status initial_state = STATE_SCOUT
   \<and> strict_breakout (sample_snapshot 10 (6 / 5) (11 / 10) (5 / 4) True 1 100000)
   \<and> candle_index (sample_snapshot 10 (6 / 5) (11 / 10) (5 / 4) True 1 100000) = Some 10
   \<and> pending_cleared initial_state
   \<and> reentry_open (sample_snapshot 10 (6 / 5) (11 / 10) (5 / 4) True 1 100000) initial_state
        sample_config
   \<and> action (fst (propose_action
        (sample_snapshot 10 (6 / 5) (11 / 10) (5 / 4) True 1 100000) initial_state
        sample_config)) = ACTION_HOLD
   \<and> pending_breakout_level (snd (propose_action
        (sample_snapshot 10 (6 / 5) (11 / 10) (5 / 4) True 1 100000) initial_state
        sample_config)) = Some 1
   \<and> pending_breakout_expires_index (snd (propose_action
        (sample_snapshot 10 (6 / 5) (11 / 10) (5 / 4) True 1 100000) initial_state
        sample_config)) = Some 13
   \<and> action (fst (propose_action
        (sample_snapshot 11 (27 / 25) (97 / 100) (11 / 10) False 1 100000)
        (snd (propose_action
           (sample_snapshot 10 (6 / 5) (11 / 10) (5 / 4) True 1 100000) initial_state
           sample_config))
        sample_config)) = ACTION_PROBE_BUY
   \<and> action (fst (propose_action
        (sample_snapshot 14 (27 / 25) (97 / 100) (11 / 10) False 1 100000)
        (snd (propose_action
           (sample_snapshot 10 (6 / 5) (11 / 10) (5 / 4) True 1 100000) initial_state
           sample_config))
        sample_config)) = ACTION_HOLD
   \<and> reason_codes (fst (propose_action
        (sample_snapshot 14 (27 / 25) (97 / 100) (11 / 10) False 1 100000)
        (snd (propose_action
           (sample_snapshot 10 (6 / 5) (11 / 10) (5 / 4) True 1 100000) initial_state
           sample_config))
        sample_config)) = [''BREAKOUT_EXPIRED'']"
proof -
  let ?a = "sample_snapshot 10 (6 / 5) (11 / 10) (5 / 4) True 1 100000"
  let ?b = "sample_snapshot 11 (27 / 25) (97 / 100) (11 / 10) False 1 100000"
  let ?c = "sample_snapshot 14 (27 / 25) (97 / 100) (11 / 10) False 1 100000"
  let ?r = "propose_action ?a initial_state sample_config"
  have h1: "status initial_state = STATE_SCOUT" by (simp add: initial_state_def)
  have h2: "strict_breakout ?a"
    by (simp add: strict_breakout_def sample_snapshot_def py_truthy_def)
  have h3: "candle_index ?a = Some 10" by (simp add: sample_snapshot_def)
  have h4: "pending_cleared initial_state" by (simp add: pending_cleared_def initial_state_def)
  note h5 = sample_reentry_open
  have h6: "features ?a ''highest_close'' = Some (PyFloat 1)"
    by (simp add: sample_snapshot_def)
  have h7: "?r = (fst ?r, snd ?r)" by simp
  have jb: "candle_index ?b = Some 11" and jc: "candle_index ?c = Some 14"
    by (simp_all add: sample_snapshot_def)
  have vb: "last_close ?b = 27 / 25" "last_low ?b = 97 / 100"
    by (simp_all add: sample_snapshot_def)
  have cf: "cfg_get (confirm_min_close_above_pct (rules sample_config)) (1 / 100) = 1 / 100"
    "cfg_get (confirm_max_retrace_pct (rules sample_config)) (1 / 20) = 1 / 20"
    by (simp_all add: sample_config_def cfg_get_def)
  have pb: "propose_action ?b (snd ?r) sample_config
      = (fst (propose_action ?b (snd ?r) sample_config),
         snd (propose_action ?b (snd ?r) sample_config))" by simp
  have pc: "propose_action ?c (snd ?r) sample_config
      = (fst (propose_action ?c (snd ?r) sample_config),
         snd (propose_action ?c (snd ?r) sample_config))" by simp
  show ?thesis
    using h1 h2 h3 h4 h5
      pending_breakout_protocol [OF h1 h2 h3 h4 h5 h6 h7 jb pb]
      pending_breakout_protocol [OF h1 h2 h3 h4 h5 h6 h7 jc pc]
    by (simp add: vb cf py_float_def)
qed

subsection \<open>Ranker\<close>

lemma adjusted_score_snapshot:
  "en_snapshot a = en_snapshot b \<Longrightarrow> adjusted_score a lb cfg = adjusted_score b lb cfg"
  by (simp add: adjusted_score_def)

text \<open>
  The scoring loop writes the score of each referenced entry, from that entry's
  snapshot, and nothing else.
\<close>

lemma score_entries_props:
  assumes "\<forall>i \<in> set refs. i < length store"
  shows "length (score_entries store refs lb cfg) = length store
    \<and> (\<forall>k < length store.
          en_proposal (score_entries store refs lb cfg ! k) = en_proposal (store ! k)
        \<and> en_snapshot (score_entries store refs lb cfg ! k) = en_snapshot (store ! k)
        \<and> (k \<in> set refs \<longrightarrow>
             en_momentum_score (score_entries store refs lb cfg ! k)
               = Some (fst (adjusted_score (store ! k) lb cfg)))
        \<and> (k \<notin> set refs \<longrightarrow> score_entries store refs lb cfg ! k = store ! k))"
  using assms
proof (induction refs arbitrary: store)
  case Nil
  then show ?case by simp
next
  case (Cons i refs)
  obtain adj ads where a: "adjusted_score (store ! i) lb cfg = (adj, ads)"
    by (cases "adjusted_score (store ! i) lb cfg")
  let ?st = "store[i := (store ! i)\<lparr>en_momentum_score := Some adj,
                                   en_score_adjustments := Some ads\<rparr>]"
  have il: "i < length store" using Cons.prems by simp
  have r: "\<forall>j \<in> set refs. j < length ?st" using Cons.prems by simp
  note ih = Cons.IH [OF r]
  have eq: "score_entries store (i # refs) lb cfg = score_entries ?st refs lb cfg"
    by (simp add: a)
  have snap: "en_snapshot (?st ! k) = en_snapshot (store ! k)" if "k < length store" for k
    using il that by (cases "k = i") simp_all
  have prp: "en_proposal (?st ! k) = en_proposal (store ! k)" if "k < length store" for k
    using il that by (cases "k = i") simp_all
  have sc: "adjusted_score (?st ! k) lb cfg = adjusted_score (store ! k) lb cfg"
    if "k < length store" for k
    using snap [OF that] by (rule adjusted_score_snapshot)
  show ?case
  proof (intro conjI allI impI)
    show "length (score_entries store (i # refs) lb cfg) = length store"
      using ih eq by simp
  next
    fix k assume k: "k < length store"
    then have k': "k < length ?st" by simp
    show "en_proposal (score_entries store (i # refs) lb cfg ! k) = en_proposal (store ! k)"
      using ih k' prp [OF k] eq by simp
    show "en_snapshot (score_entries store (i # refs) lb cfg ! k) = en_snapshot (store ! k)"
      using ih k' snap [OF k] eq by simp
    show "en_momentum_score (score_entries store (i # refs) lb cfg ! k)
               = Some (fst (adjusted_score (store ! k) lb cfg))" if "k \<in> set (i # refs)"
    proof (cases "k \<in> set refs")
      case True
      then show ?thesis using ih k' sc [OF k] eq by simp
    next
      case False
      then have ki: "k = i" using that by simp
      have "score_entries ?st refs lb cfg ! k = ?st ! k" using ih k' False by blast
      then show ?thesis using ki il a eq by simp
    qed
    show "score_entries store (i # refs) lb cfg ! k = store ! k" if "k \<notin> set (i # refs)"
    proof -
      have "score_entries ?st refs lb cfg ! k = ?st ! k" using ih k' that by simp
      then show ?thesis using that eq by simp
    qed
  qed
qed

lemma rank_out_entries_props:
  assumes "\<forall>i \<in> set refs. i < length store" and "distinct refs"
  shows "length (rank_out_entries store refs) = length store
    \<and> (\<forall>k < length store.
          rank_out_entries store refs ! k
            = (if k \<in> set refs then rank_out (store ! k) else store ! k))"
  using assms
proof (induction refs arbitrary: store)
  case Nil
  then show ?case by simp
next
  case (Cons i refs)
  let ?st = "store[i := rank_out (store ! i)]"
  have r: "\<forall>j \<in> set refs. j < length ?st" using Cons.prems by simp
  have d: "distinct refs" and ni: "i \<notin> set refs" using Cons.prems by simp_all
  note ih = Cons.IH [OF r d]
  show ?case
  proof (intro conjI allI impI)
    show "length (rank_out_entries store (i # refs)) = length store" using ih by simp
  next
    fix k assume k: "k < length store"
    then have "rank_out_entries ?st refs ! k
        = (if k \<in> set refs then rank_out (?st ! k) else ?st ! k)"
      using ih by simp
    then show "rank_out_entries store (i # refs) ! k
        = (if k \<in> set (i # refs) then rank_out (store ! k) else store ! k)"
      using ni k by (cases "k = i") auto
  qed
qed

lemma probe_buy_refs_props:
  "distinct (probe_buy_refs store)"
  "set (probe_buy_refs store) = {i. i < length store \<and> is_probe_buy (store ! i)}"
  by (auto simp: probe_buy_refs_def is_probe_buy_def)

lemma probe_buy_refs_length:
  "length (probe_buy_refs store) = length (filter is_probe_buy store)"
proof -
  have "length (probe_buy_refs store) = card (set (probe_buy_refs store))"
    by (simp add: distinct_card probe_buy_refs_props(1))
  also have "\<dots> = card {i. i < length store \<and> is_probe_buy (store ! i)}"
    by (simp add: probe_buy_refs_props(2))
  also have "\<dots> = length (filter is_probe_buy store)"
    by (simp add: length_filter_conv_card)
  finally show ?thesis .
qed

lemma rank_noop:
  assumes "cfg_get (top_n_per_tick (rules cfg)) 0 \<le> 0
     \<or> int (length (filter is_probe_buy proposals))
          < max 1 (cfg_get (min_candidates_before_rank (rules cfg)) 0)"
  shows "rank_entry_proposals proposals cfg = proposals"
  using assms by (auto simp: rank_entry_proposals_def Let_def probe_buy_refs_length)

lemma ranked_out_not_probe_buy: "action (ranked_out_proposal p) \<noteq> ACTION_PROBE_BUY"
  by (simp add: ranked_out_proposal_def action_defs)

lemma rank_active:
  fixes proposals :: "'a rank_entry_scheme list"
  assumes n: "cfg_get (top_n_per_tick (rules cfg)) 0 = N" and pos: "0 < N"
    and thr: "max 1 (cfg_get (min_candidates_before_rank (rules cfg)) 0)
                \<le> int (length (filter is_probe_buy proposals))"
    and enough: "N \<le> int (length (filter is_probe_buy proposals))"
    and res: "rank_entry_proposals proposals cfg = res"
  shows "length res = length proposals
    \<and> length (filter is_probe_buy res) = nat N
    \<and> length (filter (\<lambda>k. is_probe_buy (proposals ! k)
                           \<and> en_proposal (res ! k) = ranked_out_proposal (en_proposal (proposals ! k)))
                [0..<length proposals])
        = length (filter is_probe_buy proposals) - nat N
    \<and> (\<forall>k < length proposals.
          if is_probe_buy (proposals ! k)
          then en_proposal (res ! k) = en_proposal (proposals ! k)
               \<or> en_proposal (res ! k) = ranked_out_proposal (en_proposal (proposals ! k))
          else res ! k = proposals ! k)
    \<and> (\<forall>k < length proposals. \<forall>k' < length proposals.
          is_probe_buy (proposals ! k) \<and> is_probe_buy (proposals ! k')
          \<and> is_probe_buy (res ! k) \<and> \<not> is_probe_buy (res ! k')
          \<longrightarrow> entry_score (proposals ! k') cfg \<le> entry_score (proposals ! k) cfg)"
proof -
  define lb where "lb = cfg_get (momentum_lookback (rules cfg)) 20"
  define E where "E = probe_buy_refs proposals"
  define store where "store = score_entries proposals E lb cfg"
  define key where "key = (\<lambda>i. - cfg_get (en_momentum_score (store ! i)) 0)"
  define S where "S = sort_key key E"
  define K where "K = take (nat N) S"
  define R where "R = drop (nat N) S"
  have lenE: "length E = length (filter is_probe_buy proposals)"
    by (simp add: E_def probe_buy_refs_length)
  have Eset: "set E = {i. i < length proposals \<and> is_probe_buy (proposals ! i)}"
    and Ed: "distinct E"
    by (simp_all add: E_def probe_buy_refs_props)
  have Ein: "\<forall>i \<in> set E. i < length proposals" using Eset by simp
  note st = score_entries_props [OF Ein, of lb cfg, folded store_def]
  have stl: "length store = length proposals" using st by simp
  have Sset: "set S = set E" and Sd: "distinct S" and Sl: "length S = length E"
    and Ss: "sorted (map key S)"
    using Ed by (simp_all add: S_def)
  have NS: "nat N \<le> length S" using enough lenE Sl by simp
  have sb: "slice_bound (length S) N = nat N"
    using pos NS by (simp add: slice_bound_def)
  have unf: "res = (if N \<le> 0 \<or> int (length E)
                       < max 1 (cfg_get (min_candidates_before_rank (rules cfg)) 0)
                    then proposals else rank_out_entries store (py_slice_from S N))"
    by (simp add: res [symmetric] rank_entry_proposals_def Let_def n E_def lb_def store_def
        key_def S_def)
  have cond: "\<not> (N \<le> 0 \<or> int (length E)
                       < max 1 (cfg_get (min_candidates_before_rank (rules cfg)) 0))"
    using pos thr lenE by linarith
  have res_eq: "res = rank_out_entries store R"
    unfolding unf using cond sb by (simp add: py_slice_from_def R_def)
  have KR: "S = K @ R" by (simp add: K_def R_def)
  have Kd: "distinct K" and Rd: "distinct R" and disj: "set K \<inter> set R = {}"
    using Sd KR by simp_all
  have un: "set K \<union> set R = set E" using KR Sset by (metis set_append)
  have Kl: "length K = nat N" using NS by (simp add: K_def)
  have Rl: "length R = length (filter is_probe_buy proposals) - nat N"
    using Sl lenE by (simp add: R_def)
  have Rin: "\<forall>i \<in> set R. i < length store" using un Ein stl by auto
  note ro = rank_out_entries_props [OF Rin Rd, folded res_eq]
  have resl: "length res = length proposals" using ro stl by simp
  have resk: "res ! k = (if k \<in> set R then rank_out (store ! k) else store ! k)"
    if "k < length proposals" for k
    using ro stl that by simp
  have stp: "en_proposal (store ! k) = en_proposal (proposals ! k)"
    if "k < length proposals" for k
    using st that by simp
  have stn: "store ! k = proposals ! k" if "k < length proposals" "k \<notin> set E" for k
    using st that by simp
  have sts: "en_momentum_score (store ! k) = Some (entry_score (proposals ! k) cfg)"
    if "k \<in> set E" for k
    using st that Ein by (simp add: entry_score_def lb_def)
  have keyv: "key k = - entry_score (proposals ! k) cfg" if "k \<in> set E" for k
    using sts [OF that] by (simp add: key_def cfg_get_def)
  have keptK: "en_proposal (res ! k) = en_proposal (proposals ! k)" if "k \<in> set K" for k
  proof -
    have "k \<in> set E" using that un by blast
    then have kl: "k < length proposals" using Eset by simp
    have "k \<notin> set R" using that disj by blast
    then have "res ! k = store ! k" using resk [OF kl] by simp
    then show ?thesis using stp [OF kl] by simp
  qed
  have pbK: "is_probe_buy (res ! k)" if "k \<in> set K" for k
  proof -
    have "k \<in> set E" using that un by blast
    then have "is_probe_buy (proposals ! k)" using Eset by simp
    then show ?thesis using keptK [OF that] by (simp add: is_probe_buy_def)
  qed
  have pbR: "en_proposal (res ! k) = ranked_out_proposal (en_proposal (proposals ! k))"
    if "k \<in> set R" for k
  proof -
    have kE: "k \<in> set E" using that un by blast
    then have kl: "k < length proposals" using Eset by simp
    have "res ! k = rank_out (store ! k)" using resk [OF kl] that by simp
    then show ?thesis using stp [OF kl] by (simp add: rank_out_def ranked_out_proposal_def)
  qed
  have npbR: "\<not> is_probe_buy (res ! k)" if "k \<in> set R" for k
    using pbR [OF that] ranked_out_not_probe_buy by (simp add: is_probe_buy_def)
  have other: "res ! k = proposals ! k"
    if "k < length proposals" "\<not> is_probe_buy (proposals ! k)" for k
  proof -
    have "k \<notin> set E" using that Eset by simp
    moreover from this have "k \<notin> set R" using un by blast
    ultimately show ?thesis using resk [OF that(1)] stn [OF that(1)] by simp
  qed
  have pbset: "{k. k < length res \<and> is_probe_buy (res ! k)} = set K"
  proof (intro set_eqI iffI)
    fix k assume "k \<in> {k. k < length res \<and> is_probe_buy (res ! k)}"
    then have kl: "k < length proposals" and pb: "is_probe_buy (res ! k)"
      using resl by simp_all
    have "is_probe_buy (proposals ! k)"
    proof (rule ccontr)
      assume "\<not> is_probe_buy (proposals ! k)"
      then show False using other [OF kl] pb by simp
    qed
    then have "k \<in> set E" using kl Eset by simp
    moreover have "k \<notin> set R" using npbR pb by blast
    ultimately show "k \<in> set K" using un by blast
  next
    fix k assume k: "k \<in> set K"
    then have "k \<in> set E" using un by blast
    then have "k < length res" using Ein resl by simp
    then show "k \<in> {k. k < length res \<and> is_probe_buy (res ! k)}" using pbK [OF k] by simp
  qed
  have cnt: "length (filter is_probe_buy res) = nat N"
    using pbset Kl Kd by (simp add: length_filter_conv_card distinct_card)
  have roset: "set (filter (\<lambda>k. is_probe_buy (proposals ! k)
                   \<and> en_proposal (res ! k) = ranked_out_proposal (en_proposal (proposals ! k)))
                [0..<length proposals]) = set R"
  proof (intro set_eqI iffI)
    fix k assume "k \<in> set (filter (\<lambda>k. is_probe_buy (proposals ! k)
                   \<and> en_proposal (res ! k) = ranked_out_proposal (en_proposal (proposals ! k)))
                [0..<length proposals])"
    then have kl: "k < length proposals" and pb: "is_probe_buy (proposals ! k)"
      and ro': "en_proposal (res ! k) = ranked_out_proposal (en_proposal (proposals ! k))"
      by simp_all
    have "k \<in> set E" using kl pb Eset by simp
    moreover have "k \<notin> set K"
    proof
      assume "k \<in> set K"
      then have "is_probe_buy (res ! k)" by (rule pbK)
      then show False using ro' ranked_out_not_probe_buy by (simp add: is_probe_buy_def)
    qed
    ultimately show "k \<in> set R" using un by blast
  next
    fix k assume k: "k \<in> set R"
    then have "k \<in> set E" using un by blast
    then have "k < length proposals" "is_probe_buy (proposals ! k)" using Eset by simp_all
    then show "k \<in> set (filter (\<lambda>k. is_probe_buy (proposals ! k)
                   \<and> en_proposal (res ! k) = ranked_out_proposal (en_proposal (proposals ! k)))
                [0..<length proposals])"
      using pbR [OF k] by simp
  qed
  have rocnt: "length (filter (\<lambda>k. is_probe_buy (proposals ! k)
                   \<and> en_proposal (res ! k) = ranked_out_proposal (en_proposal (proposals ! k)))
                [0..<length proposals]) = length (filter is_probe_buy proposals) - nat N"
  proof -
    have "distinct (filter (\<lambda>k. is_probe_buy (proposals ! k)
                   \<and> en_proposal (res ! k) = ranked_out_proposal (en_proposal (proposals ! k)))
                [0..<length proposals])"
      by simp
    then have "length (filter (\<lambda>k. is_probe_buy (proposals ! k)
                   \<and> en_proposal (res ! k) = ranked_out_proposal (en_proposal (proposals ! k)))
                [0..<length proposals]) = card (set R)"
      using roset distinct_card by metis
    then show ?thesis using Rd Rl by (simp add: distinct_card)
  qed
  have ord: "entry_score (proposals ! k') cfg \<le> entry_score (proposals ! k) cfg"
    if "k \<in> set K" "k' \<in> set R" for k k'
  proof -
    have "sorted (map key K @ map key R)" using Ss KR by simp
    then have "key k \<le> key k'" using that by (auto simp: sorted_append)
    moreover have "k \<in> set E" "k' \<in> set E" using that un by blast+
    ultimately show ?thesis using keyv by simp
  qed
  have part3: "\<forall>k < length proposals.
          if is_probe_buy (proposals ! k)
          then en_proposal (res ! k) = en_proposal (proposals ! k)
               \<or> en_proposal (res ! k) = ranked_out_proposal (en_proposal (proposals ! k))
          else res ! k = proposals ! k"
  proof (intro allI impI)
    fix k assume kl: "k < length proposals"
    show "if is_probe_buy (proposals ! k)
          then en_proposal (res ! k) = en_proposal (proposals ! k)
               \<or> en_proposal (res ! k) = ranked_out_proposal (en_proposal (proposals ! k))
          else res ! k = proposals ! k"
    proof (cases "is_probe_buy (proposals ! k)")
      case True
      then have "k \<in> set E" using kl Eset by simp
      then consider "k \<in> set K" | "k \<in> set R" using un by blast
      then show ?thesis
      proof cases
        case 1
        then show ?thesis using True keptK by simp
      next
        case 2
        then show ?thesis using True pbR by simp
      qed
    next
      case False
      then show ?thesis using other [OF kl] by simp
    qed
  qed
  have part4: "\<forall>k < length proposals. \<forall>k' < length proposals.
          is_probe_buy (proposals ! k) \<and> is_probe_buy (proposals ! k')
          \<and> is_probe_buy (res ! k) \<and> \<not> is_probe_buy (res ! k')
          \<longrightarrow> entry_score (proposals ! k') cfg \<le> entry_score (proposals ! k) cfg"
  proof (intro allI impI)
    fix k k' assume kl: "k < length proposals" and kl': "k' < length proposals"
      and h: "is_probe_buy (proposals ! k) \<and> is_probe_buy (proposals ! k')
          \<and> is_probe_buy (res ! k) \<and> \<not> is_probe_buy (res ! k')"
    have "k \<in> set K" using pbset h kl resl by auto
    moreover have "k' \<in> set E" using h kl' Eset by simp
    moreover have "k' \<notin> set K" using pbset h by auto
    ultimately show "entry_score (proposals ! k') cfg \<le> entry_score (proposals ! k) cfg"
      using ord un by blast
  qed
  show ?thesis
    using resl cnt rocnt part3 part4 by simp
qed

text \<open>The score the ranker stores and sorts by is the ranking score written out above.\<close>

lemma entry_score_ranking: "entry_score entry cfg = ranking_score entry cfg"
  by (simp add: entry_score_def adjusted_score_def apply_score_adjustments_def ranking_score_def
      momentum_score_detail_total Let_def)

text \<open>
  With one slot, a candidate that scores strictly above every other candidate is the one
  kept.
\<close>

lemma unique_best_kept:
  fixes ps res :: "'a rank_entry_scheme list" and score :: "'a rank_entry_scheme \<Rightarrow> real"
  assumes len: "length res = length ps"
    and cnt: "length (filter is_probe_buy res) = 1"
    and keep: "\<forall>k < length ps.
          if is_probe_buy (ps ! k)
          then en_proposal (res ! k) = en_proposal (ps ! k)
               \<or> en_proposal (res ! k) = ranked_out_proposal (en_proposal (ps ! k))
          else res ! k = ps ! k"
    and ord: "\<forall>k < length ps. \<forall>k' < length ps.
          is_probe_buy (ps ! k) \<and> is_probe_buy (ps ! k')
          \<and> is_probe_buy (res ! k) \<and> \<not> is_probe_buy (res ! k')
          \<longrightarrow> score (ps ! k') \<le> score (ps ! k)"
    and k: "k < length ps" "is_probe_buy (ps ! k)"
    and best: "\<forall>k' < length ps. k' \<noteq> k \<and> is_probe_buy (ps ! k') \<longrightarrow> score (ps ! k') < score (ps ! k)"
  shows "is_probe_buy (res ! k)
     \<and> (\<forall>k' < length ps. k' \<noteq> k \<longrightarrow> \<not> is_probe_buy (res ! k'))
     \<and> (\<forall>k' < length ps. k' \<noteq> k \<and> is_probe_buy (ps ! k')
           \<longrightarrow> en_proposal (res ! k') = ranked_out_proposal (en_proposal (ps ! k')))"
proof -
  have "card {i. i < length res \<and> is_probe_buy (res ! i)} = 1"
    using cnt by (simp add: length_filter_conv_card)
  then obtain j where j: "{i. i < length res \<and> is_probe_buy (res ! i)} = {j}"
    by (auto simp: card_1_singleton_iff)
  then have "j \<in> {i. i < length res \<and> is_probe_buy (res ! i)}" by simp
  then have jl: "j < length ps" and jp: "is_probe_buy (res ! j)" using len by simp_all
  have only: "i = j" if "i < length ps" "is_probe_buy (res ! i)" for i
  proof -
    have "i \<in> {i. i < length res \<and> is_probe_buy (res ! i)}" using that len by simp
    then show ?thesis using j by simp
  qed
  have jc: "is_probe_buy (ps ! j)"
  proof (rule ccontr)
    assume "\<not> is_probe_buy (ps ! j)"
    then show False using keep jl jp by auto
  qed
  have kj: "k = j"
  proof (rule ccontr)
    assume ne: "k \<noteq> j"
    then have "\<not> is_probe_buy (res ! k)" using only k(1) by blast
    then have "score (ps ! k) \<le> score (ps ! j)" using ord jl k jc jp by blast
    moreover have "score (ps ! j) < score (ps ! k)" using best jl jc ne by blast
    ultimately show False by simp
  qed
  have others: "\<not> is_probe_buy (res ! k')" if "k' < length ps" "k' \<noteq> k" for k'
    using only that kj by blast
  have out: "en_proposal (res ! k') = ranked_out_proposal (en_proposal (ps ! k'))"
    if "k' < length ps" "k' \<noteq> k" "is_probe_buy (ps ! k')" for k'
  proof -
    have "en_proposal (res ! k') = en_proposal (ps ! k')
          \<or> en_proposal (res ! k') = ranked_out_proposal (en_proposal (ps ! k'))"
      using keep that by auto
    moreover have "en_proposal (res ! k') \<noteq> en_proposal (ps ! k')"
      using others [OF that(1,2)] that(3) by (auto simp: is_probe_buy_def)
    ultimately show ?thesis by blast
  qed
  show ?thesis using kj jp others out by blast
qed

lemma momentum_score_flat: "momentum_score [mk_candle 0 11 9 10 1] 1 = 0"
  by (simp add: momentum_score_def)

lemma sample_ranking_scores:
  "ranking_score override_candidate ranking_config = - 8"
  "ranking_score breakout_candidate ranking_config = 25"
  "ranking_score flat_candidate ranking_config = 0"
  by (simp_all add: ranking_score_def override_candidate_def breakout_candidate_def
      flat_candidate_def candidate_def ranking_config_def sample_config_def cfg_get_def
      effective_lookback_def py_truthy_def Let_def)
     (simp_all add: falling_candles_def short_window_candles_def
        momentum_score_short [unfolded short_window_candles_def]
        momentum_score_falling [unfolded falling_candles_def] momentum_score_flat)

lemma sample_spec_scores:
  "adjusted_momentum_score_spec override_candidate ranking_config = 2"
  "adjusted_momentum_score_spec breakout_candidate ranking_config = 0"
  by (simp_all add: adjusted_momentum_score_spec_def override_candidate_def breakout_candidate_def
      candidate_def ranking_config_def sample_config_def cfg_get_def
      py_truthy_def Let_def momentum_score_def falling_candles_def short_window_candles_def)

lemma sample_candidates_probe_buy:
  "is_probe_buy override_candidate" "is_probe_buy breakout_candidate"
  "is_probe_buy flat_candidate" "\<not> is_probe_buy hold_entry"
  by (simp_all add: is_probe_buy_def override_candidate_def breakout_candidate_def
      flat_candidate_def hold_entry_def candidate_def sample_proposal_def ACTION_PROBE_BUY_def)

lemma ranking_config_rules:
  "cfg_get (top_n_per_tick (rules ranking_config)) 0 = 1"
  "cfg_get (min_candidates_before_rank (rules ranking_config)) 0 = 0"
  by (simp_all add: ranking_config_def sample_config_def cfg_get_def)

text \<open>
  Counterexample to C5 as stated: two PROBE_BUY candidates with 2 candles each, one slot,
  the default lookback of 20. The momentum score of the feature extractor is 0 for both
  (insufficient data), so the adjusted momentum scores are 2 for the chain-override
  candidate (bonus 5, penalty 3) and 0 for the breakout candidate; the ranker scores
  them with the lookback cut to 1, -8 and 25, keeps the breakout candidate and ranks
  the chain-override candidate out.
\<close>

theorem rank_entry_proposals_claim_counterexample:
  "cfg_get (top_n_per_tick (rules ranking_config)) 0 = 1
   \<and> max 1 (cfg_get (min_candidates_before_rank (rules ranking_config)) 0)
        \<le> int (length (filter is_probe_buy two_candidates))
   \<and> is_probe_buy (rank_entry_proposals two_candidates ranking_config ! 1)
   \<and> \<not> is_probe_buy (rank_entry_proposals two_candidates ranking_config ! 0)
   \<and> adjusted_momentum_score_spec (two_candidates ! 1) ranking_config
        < adjusted_momentum_score_spec (two_candidates ! 0) ranking_config"
proof -
  let ?res = "rank_entry_proposals two_candidates ranking_config"
  have c: "length (filter is_probe_buy two_candidates) = 2"
    by (simp add: two_candidates_def sample_candidates_probe_buy)
  have pos: "(0::int) < 1" by simp
  have thr: "max 1 (cfg_get (min_candidates_before_rank (rules ranking_config)) 0)
               \<le> int (length (filter is_probe_buy two_candidates))"
    by (simp add: c ranking_config_rules)
  have enough: "1 \<le> int (length (filter is_probe_buy two_candidates))" by (simp add: c)
  note ra = rank_active [OF ranking_config_rules(1) pos thr enough refl]
  have len: "length ?res = length two_candidates" and cnt: "length (filter is_probe_buy ?res) = 1"
    using ra by simp_all
  have l2: "length two_candidates = 2" by (simp add: two_candidates_def)
  have best: "\<forall>k' < length two_candidates. k' \<noteq> 1 \<and> is_probe_buy (two_candidates ! k')
        \<longrightarrow> entry_score (two_candidates ! k') ranking_config
              < entry_score (two_candidates ! 1) ranking_config"
  proof (intro allI impI)
    fix k' assume "k' < length two_candidates"
      and "k' \<noteq> 1 \<and> is_probe_buy (two_candidates ! k')"
    then have "k' = 0" using l2 by simp
    then show "entry_score (two_candidates ! k') ranking_config
              < entry_score (two_candidates ! 1) ranking_config"
      by (simp add: entry_score_ranking two_candidates_def sample_ranking_scores)
  qed
  have k: "1 < length two_candidates" "is_probe_buy (two_candidates ! 1)"
    by (simp_all add: two_candidates_def sample_candidates_probe_buy)
  have keep: "\<forall>k < length two_candidates.
          if is_probe_buy (two_candidates ! k)
          then en_proposal (?res ! k) = en_proposal (two_candidates ! k)
               \<or> en_proposal (?res ! k) = ranked_out_proposal (en_proposal (two_candidates ! k))
          else ?res ! k = two_candidates ! k"
    using ra by blast
  have ord: "\<forall>k < length two_candidates. \<forall>k' < length two_candidates.
          is_probe_buy (two_candidates ! k) \<and> is_probe_buy (two_candidates ! k')
          \<and> is_probe_buy (?res ! k) \<and> \<not> is_probe_buy (?res ! k')
          \<longrightarrow> entry_score (two_candidates ! k') ranking_config
                \<le> entry_score (two_candidates ! k) ranking_config"
    using ra by blast
  note u = unique_best_kept [where score = "\<lambda>e. entry_score e ranking_config",
      OF len cnt keep ord k best]
  have kept: "is_probe_buy (?res ! 1)" using u by blast
  have out: "\<not> is_probe_buy (?res ! 0)" using u l2 by simp
  show ?thesis
    using kept out thr
    by (simp add: ranking_config_rules two_candidates_def sample_spec_scores)
qed

text \<open>
  C5 (amended). For every tick's proposal list with \<open>top_n_per_tick = N > 0\<close> and a
  number of PROBE_BUY candidates that is at least \<open>max(1, min_candidates_before_rank)\<close>
  and at least \<open>N\<close>, ranking leaves exactly \<open>N\<close> proposals with action PROBE_BUY, each
  with a ranking score at least that of every candidate ranked out, and rewrites every
  other PROBE_BUY candidate (their number is the candidate count minus \<open>N\<close>) to HOLD with
  RANKED_OUT appended to its reason codes; entries that are not PROBE_BUY are left
  untouched. The ranking score of a candidate is 0 for \<open>momentum_lookback \<le> 0\<close> and
  otherwise the momentum score of its candles for \<open>momentum_lookback\<close> (default 20),
  cut to \<open>max(1, len(candles) - 1)\<close> when there are fewer than \<open>lookback + 1\<close> candles,
  plus \<open>chain_override_score_bonus\<close> if the chain-override flag is set, minus
  \<open>weak_breakout_score_penalty\<close> if the candidate is provisional and not a strict
  breakout. If \<open>top_n_per_tick \<le> 0\<close> or the candidate count is below the threshold,
  ranking changes nothing.
\<close>

theorem rank_entry_proposals_top_n:
  fixes proposals :: "'a rank_entry_scheme list"
  assumes "cfg_get (top_n_per_tick (rules cfg)) 0 = N"
    and "cfg_get (min_candidates_before_rank (rules cfg)) 0 = min_candidates"
    and "length (filter is_probe_buy proposals) = cnt"
    and "rank_entry_proposals proposals cfg = res"
  shows "(0 < N \<and> max 1 min_candidates \<le> int cnt \<and> N \<le> int cnt \<longrightarrow>
        length res = length proposals
      \<and> length (filter is_probe_buy res) = nat N
      \<and> length (filter (\<lambda>k. is_probe_buy (proposals ! k)
                           \<and> en_proposal (res ! k) = ranked_out_proposal (en_proposal (proposals ! k)))
                 [0..<length proposals]) = cnt - nat N
      \<and> (\<forall>k < length proposals.
            if is_probe_buy (proposals ! k)
            then en_proposal (res ! k) = en_proposal (proposals ! k)
                 \<or> en_proposal (res ! k) = ranked_out_proposal (en_proposal (proposals ! k))
            else res ! k = proposals ! k)
      \<and> (\<forall>k < length proposals. \<forall>k' < length proposals.
            is_probe_buy (proposals ! k) \<and> is_probe_buy (proposals ! k')
            \<and> is_probe_buy (res ! k) \<and> \<not> is_probe_buy (res ! k')
            \<longrightarrow> ranking_score (proposals ! k') cfg \<le> ranking_score (proposals ! k) cfg))
    \<and> (N \<le> 0 \<or> int cnt < max 1 min_candidates \<longrightarrow> res = proposals)"
    (is "(?A \<longrightarrow> ?B) \<and> (?C \<longrightarrow> ?D)")
proof -
  have active: ?B if h: ?A
  proof -
    have pos: "0 < N" using h by simp
    have thr: "max 1 (cfg_get (min_candidates_before_rank (rules cfg)) 0)
                  \<le> int (length (filter is_probe_buy proposals))"
      using h assms(2,3) by simp
    have enough: "N \<le> int (length (filter is_probe_buy proposals))"
      using h assms(3) by simp
    show ?thesis
      using rank_active [OF assms(1) pos thr enough assms(4)] assms(3)
      by (simp add: entry_score_ranking)
  qed
  have noop: ?D if c: ?C
  proof -
    have "cfg_get (top_n_per_tick (rules cfg)) 0 \<le> 0
       \<or> int (length (filter is_probe_buy proposals))
            < max 1 (cfg_get (min_candidates_before_rank (rules cfg)) 0)"
      using c assms(1,2,3) by simp
    then show ?thesis using rank_noop assms(4) by metis
  qed
  show ?thesis using active noop by blast
qed

theorem rank_entry_proposals_top_n_witness:
  "cfg_get (top_n_per_tick (rules ranking_config)) 0 = 1
   \<and> cfg_get (min_candidates_before_rank (rules ranking_config)) 0 = 0
   \<and> length (filter is_probe_buy tick_entries) = 3
   \<and> ranking_score (tick_entries ! 0) ranking_config = - 8
   \<and> ranking_score (tick_entries ! 2) ranking_config = 25
   \<and> ranking_score (tick_entries ! 3) ranking_config = 0
   \<and> length (rank_entry_proposals tick_entries ranking_config) = 4
   \<and> length (filter is_probe_buy (rank_entry_proposals tick_entries ranking_config)) = 1
   \<and> length (filter (\<lambda>k. is_probe_buy (tick_entries ! k)
                \<and> en_proposal (rank_entry_proposals tick_entries ranking_config ! k)
                    = ranked_out_proposal (en_proposal (tick_entries ! k)))
        [0..<length tick_entries]) = 2
   \<and> is_probe_buy (rank_entry_proposals tick_entries ranking_config ! 2)
   \<and> en_proposal (rank_entry_proposals tick_entries ranking_config ! 0)
        = ranked_out_proposal (en_proposal override_candidate)
   \<and> rank_entry_proposals tick_entries ranking_config ! 1 = hold_entry
   \<and> en_proposal (rank_entry_proposals tick_entries ranking_config ! 3)
        = ranked_out_proposal (en_proposal flat_candidate)"
proof -
  let ?res = "rank_entry_proposals tick_entries ranking_config"
  let ?sc = "\<lambda>e :: rank_entry. ranking_score e ranking_config"
  have c: "length (filter is_probe_buy tick_entries) = 3"
    by (simp add: tick_entries_def sample_candidates_probe_buy)
  have l4: "length tick_entries = 4" by (simp add: tick_entries_def)
  have el: "tick_entries ! 0 = override_candidate" "tick_entries ! 1 = hold_entry"
    "tick_entries ! 2 = breakout_candidate" "tick_entries ! 3 = flat_candidate"
    by (simp_all add: tick_entries_def)
  note t = rank_entry_proposals_top_n [OF ranking_config_rules c refl]
  have hyp: "(0::int) < 1 \<and> max 1 0 \<le> int 3 \<and> 1 \<le> int 3" by simp
  have len: "length ?res = length tick_entries"
    and cnt: "length (filter is_probe_buy ?res) = 1"
    and out2: "length (filter (\<lambda>k. is_probe_buy (tick_entries ! k)
                \<and> en_proposal (?res ! k) = ranked_out_proposal (en_proposal (tick_entries ! k)))
        [0..<length tick_entries]) = 2"
    using t hyp by simp_all
  have keep: "\<forall>k < length tick_entries.
          if is_probe_buy (tick_entries ! k)
          then en_proposal (?res ! k) = en_proposal (tick_entries ! k)
               \<or> en_proposal (?res ! k) = ranked_out_proposal (en_proposal (tick_entries ! k))
          else ?res ! k = tick_entries ! k"
    using t hyp by blast
  have ord: "\<forall>k < length tick_entries. \<forall>k' < length tick_entries.
          is_probe_buy (tick_entries ! k) \<and> is_probe_buy (tick_entries ! k')
          \<and> is_probe_buy (?res ! k) \<and> \<not> is_probe_buy (?res ! k')
          \<longrightarrow> ?sc (tick_entries ! k') \<le> ?sc (tick_entries ! k)"
    using t hyp by blast
  have k: "2 < length tick_entries" "is_probe_buy (tick_entries ! 2)"
    by (simp_all add: l4 el sample_candidates_probe_buy)
  have best: "\<forall>k' < length tick_entries. k' \<noteq> 2 \<and> is_probe_buy (tick_entries ! k')
        \<longrightarrow> ?sc (tick_entries ! k') < ?sc (tick_entries ! 2)"
  proof (intro allI impI)
    fix k' assume a: "k' < length tick_entries"
      and b: "k' \<noteq> 2 \<and> is_probe_buy (tick_entries ! k')"
    have "k' = 0 \<or> k' = 1 \<or> k' = 3" using a b l4 by arith
    then have "k' = 0 \<or> k' = 3" using b el sample_candidates_probe_buy by auto
    then show "?sc (tick_entries ! k') < ?sc (tick_entries ! 2)"
      using el by (auto simp: sample_ranking_scores)
  qed
  note u = unique_best_kept [where score = ?sc, OF len cnt keep ord k best]
  have kept: "is_probe_buy (?res ! 2)" using u by blast
  have o0: "en_proposal (?res ! 0) = ranked_out_proposal (en_proposal override_candidate)"
    using u l4 el sample_candidates_probe_buy by auto
  have o3: "en_proposal (?res ! 3) = ranked_out_proposal (en_proposal flat_candidate)"
    using u l4 el sample_candidates_probe_buy by auto
  have h1: "?res ! 1 = hold_entry"
    using keep l4 el sample_candidates_probe_buy by auto
  show ?thesis
    using ranking_config_rules c len cnt out2 kept o0 o3 h1 l4
    by (simp add: el sample_ranking_scores)
qed

end
